theory Spec2Isabelle
  imports Complex_Main "HOL-Library.AList"
begin

section \<open>Numbers\<close>

text \<open>
  The engine computes with the numbers of its host language: IEEE 754 doubles, with the
  two zeros, the two infinities and NaN. A finite double other than a zero is taken as
  the rational that it denotes; \<open>Finite 0\<close> is the positive zero and \<open>NegZero\<close> the
  negative one. A term \<open>Finite q\<close> with any rational \<open>q\<close> stands for the double nearest
  to \<open>q\<close>, the way a decimal literal of the language does.
\<close>

datatype jsnum = Finite rat | NegZero | PosInf | NegInf | NaN

text \<open>The nearest integer, a tie going to the even one.\<close>

definition roundHalfEven :: "rat \<Rightarrow> int" where
  "roundHalfEven x =
     (let f = \<lfloor>x\<rfloor>; r = x - of_int f
      in if r < 1 / 2 then f else if 1 / 2 < r then f + 1 else if even f then f else f + 1)"

definition pow2 :: "int \<Rightarrow> rat" where
  "pow2 e = (if 0 \<le> e then 2 ^ nat e else 1 / 2 ^ nat (- e))"

text \<open>
  The binade of a positive rational \<open>q\<close>: the pair \<open>(s, e)\<close> with \<open>q = s * 2\<^sup>e\<close> and
  \<open>1 \<le> s < 2\<close>. The exponent of a double is at most 1023, so the search upwards stops
  at 1024; at the lower end it stops at \<open>-1022\<close>, the exponent of the subnormal numbers,
  and \<open>s\<close> is then below 1.
\<close>

fun scaleUp :: "nat \<Rightarrow> rat \<Rightarrow> int \<Rightarrow> rat \<times> int" where
  "scaleUp 0 q e = (q, e)"
| "scaleUp (Suc n) q e = (if 2 \<le> q then scaleUp n (q / 2) (e + 1) else (q, e))"

fun scaleDown :: "nat \<Rightarrow> rat \<Rightarrow> int \<Rightarrow> rat \<times> int" where
  "scaleDown 0 q e = (q, e)"
| "scaleDown (Suc n) q e = (if q < 1 then scaleDown n (q * 2) (e - 1) else (q, e))"

definition binade :: "rat \<Rightarrow> rat \<times> int" where
  "binade q = (if 1 \<le> q then scaleUp 1024 q 0 else scaleDown 1022 q 0)"

text \<open>
  The double nearest to a positive rational: the significand has 53 bits, so \<open>s\<close> is
  rounded to a multiple of \<open>2\<^sup>-\<^sup>5\<^sup>2\<close>, a tie going to the even significand. \<open>None\<close> is the
  overflow: the result would be \<open>2\<^sup>1\<^sup>0\<^sup>2\<^sup>4\<close> or more. The result is 0 when \<open>q\<close> is at most
  half of the least subnormal number.
\<close>

definition roundPositive :: "rat \<Rightarrow> rat option" where
  "roundPositive q =
     (case binade q of
        (s, e) \<Rightarrow>
          if 1024 \<le> e then None
          else (let m = roundHalfEven (s * 2 ^ 52)
                in if e = 1023 \<and> m = 2 ^ 53 then None else Some (of_int m * pow2 (e - 52))))"

text \<open>
  The double nearest to a rational. An integer up to \<open>2\<^sup>5\<^sup>3\<close> in magnitude is a double.
  A negative number that rounds to zero gives the negative zero.
\<close>

definition nearestDouble :: "rat \<Rightarrow> jsnum" where
  "nearestDouble q =
     (if q = 0 then Finite 0
      else if of_int \<lfloor>q\<rfloor> = q \<and> \<bar>q\<bar> \<le> 9007199254740992 then Finite q
      else if 0 < q then (case roundPositive q of None \<Rightarrow> PosInf | Some v \<Rightarrow> Finite v)
      else (case roundPositive (- q) of
              None \<Rightarrow> NegInf
            | Some v \<Rightarrow> if v = 0 then NegZero else Finite (- v)))"

text \<open>The double that a term stands for. Every operation reads its operands through it.\<close>

fun double :: "jsnum \<Rightarrow> jsnum" where
  "double (Finite q) = nearestDouble q"
| "double x = x"

definition isNaN :: "jsnum \<Rightarrow> bool" where
  "isNaN x = (x = NaN)"

definition isZero :: "jsnum \<Rightarrow> bool" where
  "isZero x = (x = Finite 0 \<or> x = NegZero)"

definition isInfinite :: "jsnum \<Rightarrow> bool" where
  "isInfinite x = (x = PosInf \<or> x = NegInf)"

text \<open>
  The sign bit of a double: true for negative numbers, the negative zero and
  \<open>-Infinity\<close>.
\<close>

fun signBit :: "jsnum \<Rightarrow> bool" where
  "signBit (Finite q) = (q < 0)"
| "signBit NegZero = True"
| "signBit PosInf = False"
| "signBit NegInf = True"
| "signBit NaN = False"

definition signedZero :: "bool \<Rightarrow> jsnum" where
  "signedZero neg = (if neg then NegZero else Finite 0)"

definition signedInf :: "bool \<Rightarrow> jsnum" where
  "signedInf neg = (if neg then NegInf else PosInf)"

text \<open>Unary minus.\<close>

fun negateDouble :: "jsnum \<Rightarrow> jsnum" where
  "negateDouble (Finite q) = (if q = 0 then NegZero else Finite (- q))"
| "negateDouble NegZero = Finite 0"
| "negateDouble PosInf = NegInf"
| "negateDouble NegInf = PosInf"
| "negateDouble NaN = NaN"

definition jneg :: "jsnum \<Rightarrow> jsnum" where
  "jneg x = negateDouble (double x)"

text \<open>
  Addition: opposite infinities give NaN, two negative zeros give the negative zero, and
  the exact sum of two finite numbers is rounded; an exact sum of 0 is the positive zero.
\<close>

fun addDoubles :: "jsnum \<Rightarrow> jsnum \<Rightarrow> jsnum" where
  "addDoubles NaN _ = NaN"
| "addDoubles _ NaN = NaN"
| "addDoubles PosInf NegInf = NaN"
| "addDoubles NegInf PosInf = NaN"
| "addDoubles PosInf _ = PosInf"
| "addDoubles _ PosInf = PosInf"
| "addDoubles NegInf _ = NegInf"
| "addDoubles _ NegInf = NegInf"
| "addDoubles NegZero y = y"
| "addDoubles x NegZero = x"
| "addDoubles (Finite a) (Finite b) = nearestDouble (a + b)"

definition jadd :: "jsnum \<Rightarrow> jsnum \<Rightarrow> jsnum" where
  "jadd x y = addDoubles (double x) (double y)"

text \<open>Subtraction is addition of the negated right operand, as the language defines it.\<close>

definition jsub :: "jsnum \<Rightarrow> jsnum \<Rightarrow> jsnum" where
  "jsub x y = jadd x (jneg y)"

text \<open>
  Multiplication: an infinity times a zero is NaN; the sign is the product of the signs;
  the exact product of two finite numbers is rounded.
\<close>

definition multiplyDoubles :: "jsnum \<Rightarrow> jsnum \<Rightarrow> jsnum" where
  "multiplyDoubles x y =
     (if isNaN x \<or> isNaN y then NaN
      else if (isInfinite x \<and> isZero y) \<or> (isZero x \<and> isInfinite y) then NaN
      else if isInfinite x \<or> isInfinite y then signedInf (signBit x \<noteq> signBit y)
      else if isZero x \<or> isZero y then signedZero (signBit x \<noteq> signBit y)
      else (case (x, y) of (Finite a, Finite b) \<Rightarrow> nearestDouble (a * b) | _ \<Rightarrow> NaN))"

definition jmul :: "jsnum \<Rightarrow> jsnum \<Rightarrow> jsnum" where
  "jmul x y = multiplyDoubles (double x) (double y)"

text \<open>
  Division: \<open>0/0\<close> and \<open>Infinity/Infinity\<close> are NaN, a non-zero number divided by a
  zero is an infinity, and nothing is raised; the exact quotient of two finite numbers
  is rounded.
\<close>

definition divideDoubles :: "jsnum \<Rightarrow> jsnum \<Rightarrow> jsnum" where
  "divideDoubles x y =
     (if isNaN x \<or> isNaN y then NaN
      else if (isInfinite x \<and> isInfinite y) \<or> (isZero x \<and> isZero y) then NaN
      else if isInfinite x \<or> isZero y then signedInf (signBit x \<noteq> signBit y)
      else if isInfinite y \<or> isZero x then signedZero (signBit x \<noteq> signBit y)
      else (case (x, y) of (Finite a, Finite b) \<Rightarrow> nearestDouble (a / b) | _ \<Rightarrow> NaN))"

definition jdiv :: "jsnum \<Rightarrow> jsnum \<Rightarrow> jsnum" where
  "jdiv x y = divideDoubles (double x) (double y)"

text \<open>
  \<open>Math.round\<close>: the nearest integer, ties towards \<open>+Infinity\<close>; a value in
  \<open>[-0.5, 0)\<close> rounds to the negative zero; the special values are returned as they are.
  The integer nearest to a double is a double.
\<close>

fun roundDouble :: "jsnum \<Rightarrow> jsnum" where
  "roundDouble (Finite q) =
     (let r = \<lfloor>q + 1 / 2\<rfloor> in if r = 0 \<and> q < 0 then NegZero else Finite (of_int r))"
| "roundDouble x = x"

definition mathRound :: "jsnum \<Rightarrow> jsnum" where
  "mathRound x = roundDouble (double x)"

text \<open>The comparison \<open>x <= y\<close>: false as soon as one side is NaN; the two zeros are equal.\<close>

fun lessEqDoubles :: "jsnum \<Rightarrow> jsnum \<Rightarrow> bool" where
  "lessEqDoubles NaN _ = False"
| "lessEqDoubles _ NaN = False"
| "lessEqDoubles NegInf _ = True"
| "lessEqDoubles _ PosInf = True"
| "lessEqDoubles PosInf _ = False"
| "lessEqDoubles _ NegInf = False"
| "lessEqDoubles NegZero NegZero = True"
| "lessEqDoubles NegZero (Finite b) = (0 \<le> b)"
| "lessEqDoubles (Finite a) NegZero = (a \<le> 0)"
| "lessEqDoubles (Finite a) (Finite b) = (a \<le> b)"

definition jle :: "jsnum \<Rightarrow> jsnum \<Rightarrow> bool" where
  "jle x y = lessEqDoubles (double x) (double y)"

text \<open>\<open>Math.max\<close> of two numbers: NaN if one of them is NaN; the positive zero is the
  greater zero.\<close>

definition maxDoubles :: "jsnum \<Rightarrow> jsnum \<Rightarrow> jsnum" where
  "maxDoubles x y =
     (if isNaN x \<or> isNaN y then NaN
      else if lessEqDoubles x y then (if lessEqDoubles y x \<and> signBit y then x else y)
      else x)"

definition mathMax :: "jsnum \<Rightarrow> jsnum \<Rightarrow> jsnum" where
  "mathMax x y = maxDoubles (double x) (double y)"

text \<open>A number is falsy when it is a zero or NaN; \<open>a || b\<close> is \<open>b\<close> when \<open>a\<close> is falsy.\<close>

definition truthy :: "jsnum \<Rightarrow> bool" where
  "truthy x = (\<not> isZero (double x) \<and> \<not> isNaN x)"

definition orElse :: "jsnum \<Rightarrow> jsnum \<Rightarrow> jsnum" where
  "orElse a b = (if truthy a then a else b)"

text \<open>\<open>a ?? b\<close>: \<open>b\<close> only when \<open>a\<close> is absent.\<close>

definition nullish :: "'a option \<Rightarrow> 'a \<Rightarrow> 'a" where
  "nullish a b = (case a of Some v \<Rightarrow> v | None \<Rightarrow> b)"

definition num :: "int \<Rightarrow> jsnum" where
  "num i = Finite (of_int i)"

section \<open>Strings\<close>

text \<open>
  A string is the list of its code units; the model covers the code units below 256.
  Among these, the white space of the language (what \<open>trim\<close> strips and what \<open>\s\<close>
  matches) is TAB, LF, VT, FF, CR, SPACE and the no-break space.
\<close>

definition isDigit :: "char \<Rightarrow> bool" where
  "isDigit c = (let n = (of_char c :: nat) in 48 \<le> n \<and> n \<le> 57)"

definition isLineTerminator :: "char \<Rightarrow> bool" where
  "isLineTerminator c = (let n = (of_char c :: nat) in n = 10 \<or> n = 13)"

definition isWhiteSpace :: "char \<Rightarrow> bool" where
  "isWhiteSpace c =
     (let n = (of_char c :: nat) in n = 9 \<or> n = 11 \<or> n = 12 \<or> n = 32 \<or> n = 160)"

definition isSpace :: "char \<Rightarrow> bool" where
  "isSpace c = (isWhiteSpace c \<or> isLineTerminator c)"

text \<open>\<open>toLowerCase\<close> on one code unit: \<open>A-Z\<close> and the accented capitals (not \<open>\<times>\<close>).\<close>

definition toLowerChar :: "char \<Rightarrow> char" where
  "toLowerChar c =
     (let n = (of_char c :: nat)
      in if (65 \<le> n \<and> n \<le> 90) \<or> (192 \<le> n \<and> n \<le> 222 \<and> n \<noteq> 215)
         then char_of (n + 32) else c)"

definition toLowerCase :: "string \<Rightarrow> string" where
  "toLowerCase s = map toLowerChar s"

definition trim :: "string \<Rightarrow> string" where
  "trim s = rev (dropWhile isSpace (rev (dropWhile isSpace s)))"

definition digitChar :: "nat \<Rightarrow> char" where
  "digitChar d = char_of (48 + d)"

definition digitValue :: "char \<Rightarrow> nat" where
  "digitValue c = of_char c - 48"

text \<open>The decimal digits of a natural number, as a template literal prints an index.\<close>

fun natToString :: "nat \<Rightarrow> string" where
  "natToString n =
     (if n < 10 then [digitChar n] else natToString (n div 10) @ [digitChar (n mod 10)])"

declare natToString.simps [simp del]

text \<open>The decimal digits of an integer that is not negative.\<close>

function intToString :: "int \<Rightarrow> string" where
  "intToString i =
     (if i < 10 then [digitChar (nat i)]
      else intToString (i div 10) @ [digitChar (nat (i mod 10))])"
  by pat_completeness auto
termination
  by (relation "measure nat") auto

declare intToString.simps [simp del]

text \<open>
  \<open>String(value)\<close> for a positive double \<open>q\<close>. The language takes the integers \<open>n\<close>, \<open>k\<close>
  and \<open>s\<close> with \<open>k\<close> as small as possible such that \<open>s\<close> has \<open>k\<close> decimal digits and
  \<open>s * 10\<^sup>n\<^sup>-\<^sup>k\<close> reads back as \<open>q\<close>; among several such \<open>s\<close> the one nearest to \<open>q\<close>,
  and the even one of two that are equally near. With \<open>10\<^sup>n\<^sup>-\<^sup>1 \<le> q < 10\<^sup>n\<close>, the
  candidates for a given \<open>k\<close> are the two multiples of \<open>10\<^sup>n\<^sup>-\<^sup>k\<close> around \<open>q\<close>. Seventeen
  digits always read back.
\<close>

definition pow10 :: "int \<Rightarrow> rat" where
  "pow10 e = (if 0 \<le> e then 10 ^ nat e else 1 / 10 ^ nat (- e))"

fun countUp :: "nat \<Rightarrow> rat \<Rightarrow> int \<Rightarrow> int" where
  "countUp 0 q n = n"
| "countUp (Suc f) q n = (if 10 \<le> q then countUp f (q / 10) (n + 1) else n)"

fun countDown :: "nat \<Rightarrow> rat \<Rightarrow> int \<Rightarrow> int" where
  "countDown 0 q n = n"
| "countDown (Suc f) q n = (if q < 1 / 10 then countDown f (q * 10) (n - 1) else n)"

text \<open>The \<open>n\<close> with \<open>10\<^sup>n\<^sup>-\<^sup>1 \<le> q < 10\<^sup>n\<close>; for a double it lies between \<open>-323\<close> and 309.\<close>

definition decimalExponent :: "rat \<Rightarrow> int" where
  "decimalExponent q = (if 1 \<le> q then countUp 400 q 1 else countDown 400 q 0)"

definition readsBack :: "rat \<Rightarrow> rat \<Rightarrow> bool" where
  "readsBack q v = (nearestDouble v = Finite q)"

definition decimalOf :: "rat \<Rightarrow> int \<Rightarrow> nat \<Rightarrow> int option" where
  "decimalOf q n k =
     (let u = pow10 (n - int k); lo = \<lfloor>q / u\<rfloor>; hi = lo + 1;
          below = readsBack q (of_int lo * u); above = readsBack q (of_int hi * u)
      in if below \<and> above
         then (let dl = q - of_int lo * u; dh = of_int hi * u - q
               in Some (if dl < dh then lo else if dh < dl then hi
                        else if even lo then lo else hi))
         else if below then Some lo
         else if above then Some hi
         else None)"

text \<open>The search for the least \<open>k\<close>, from \<open>k\<close> on, with a bound on the number of steps.\<close>

fun shortestDecimal :: "nat \<Rightarrow> nat \<Rightarrow> rat \<Rightarrow> int \<Rightarrow> int \<times> nat" where
  "shortestDecimal 0 k q n = (\<lfloor>q / pow10 (n - int k)\<rfloor>, k)"
| "shortestDecimal (Suc f) k q n =
     (case decimalOf q n k of
        Some s \<Rightarrow> (s, k)
      | None \<Rightarrow> shortestDecimal f (Suc k) q n)"

definition stripZeros :: "string \<Rightarrow> string" where
  "stripZeros ds = rev (dropWhile (\<lambda>c. c = CHR ''0'') (rev ds))"

text \<open>
  The digits \<open>ds\<close> of \<open>s\<close> and the exponent \<open>n\<close> are printed in positional notation
  when \<open>-6 < n \<le> 21\<close>, and with an exponent otherwise. When the upper candidate is
  \<open>10\<^sup>k\<close>, it has one digit more than \<open>k\<close>: \<open>n\<close> grows by one and the zeros are dropped.
\<close>

definition positiveToString :: "rat \<Rightarrow> string" where
  "positiveToString q =
     (let n0 = decimalExponent q;
          (s, k0) = shortestDecimal 17 1 q n0;
          ds0 = intToString s;
          n = n0 + int (length ds0) - int k0;
          ds = stripZeros ds0;
          k = int (length ds)
      in if k \<le> n \<and> n \<le> 21 then ds @ replicate (nat (n - k)) CHR ''0''
         else if 0 < n \<and> n \<le> 21 then take (nat n) ds @ CHR ''.'' # drop (nat n) ds
         else if - 6 < n \<and> n \<le> 0 then ''0.'' @ replicate (nat (- n)) CHR ''0'' @ ds
         else (let e = n - 1;
                   x = (if e < 0 then CHR ''-'' else CHR ''+'') # intToString \<bar>e\<bar>
               in if k = 1 then ds @ CHR ''e'' # x
                  else hd ds # CHR ''.'' # tl ds @ CHR ''e'' # x))"

fun doubleToString :: "jsnum \<Rightarrow> string" where
  "doubleToString NaN = ''NaN''"
| "doubleToString PosInf = ''Infinity''"
| "doubleToString NegInf = ''-Infinity''"
| "doubleToString NegZero = ''0''"
| "doubleToString (Finite q) =
     (if q = 0 then ''0''
      else if q < 0 then CHR ''-'' # positiveToString (- q)
      else positiveToString q)"

definition numberToString :: "jsnum \<Rightarrow> string" where
  "numberToString x = doubleToString (double x)"

section \<open>Outcomes of a call\<close>

text \<open>
  A call returns a value or raises an exception. A third outcome marks the calls whose
  behaviour in the host language this model does not describe.
\<close>

datatype 'a host = Returns 'a | Raises | Unmodelled

section \<open>Regular expressions built from variable names\<close>

text \<open>
  \<open>new RegExp(key, 'gi')\<close> is built from the variable name as it is (the source replaces
  every underscore by an underscore first). A name without any of the syntax characters
  \<open>^ $ . * + ? ( ) [ ] { } |\<close> and the backslash is a pattern that matches the name itself, letter case
  ignored.
\<close>

definition isSyntaxCharacter :: "char \<Rightarrow> bool" where
  "isSyntaxCharacter c = (c \<in> set ''^$.*+?()[]{}|'' \<or> c = CHR 0x5C)"

definition literalPattern :: "string \<Rightarrow> bool" where
  "literalPattern key = list_all (\<lambda>c. \<not> isSyntaxCharacter c) key"

text \<open>
  A name whose only syntax characters are the quantifiers \<open>*\<close>, \<open>+\<close> and \<open>?\<close> is a
  sequence of terms: a character, then at most one quantifier, then at most one \<open>?\<close>
  that makes the quantifier lazy. A quantifier anywhere else has nothing to repeat, and
  the constructor raises a SyntaxError: the name \<open>c++\<close> does, and so does every name
  that starts with a quantifier.
\<close>

definition isQuantifier :: "char \<Rightarrow> bool" where
  "isQuantifier c = (c \<in> set ''*+?'')"

datatype position = NothingToRepeat | AfterCharacter | AfterQuantifier

fun wellQuantified :: "position \<Rightarrow> string \<Rightarrow> bool" where
  "wellQuantified p [] = True"
| "wellQuantified p (c # cs) =
     (if \<not> isQuantifier c then wellQuantified AfterCharacter cs
      else if p = AfterCharacter then wellQuantified AfterQuantifier cs
      else if p = AfterQuantifier \<and> c = CHR ''?'' then wellQuantified NothingToRepeat cs
      else False)"

definition invalidPattern :: "string \<Rightarrow> bool" where
  "invalidPattern key =
     (list_all isQuantifier (filter isSyntaxCharacter key)
      \<and> \<not> wellQuantified NothingToRepeat key)"

text \<open>
  Two code units match under the \<open>i\<close> flag when their canonical (upper-case) forms
  agree; below 256 these are the pairs that \<open>toLowerChar\<close> identifies.
\<close>

definition sameLetter :: "char \<Rightarrow> char \<Rightarrow> bool" where
  "sameLetter a b = (toLowerChar a = toLowerChar b)"

fun matchesAt :: "string \<Rightarrow> string \<Rightarrow> bool" where
  "matchesAt [] s = True"
| "matchesAt (k # ks) [] = False"
| "matchesAt (k # ks) (c # cs) = (sameLetter k c \<and> matchesAt ks cs)"

fun occursIn :: "string \<Rightarrow> string \<Rightarrow> bool" where
  "occursIn key [] = matchesAt key []"
| "occursIn key (c # cs) = (matchesAt key (c # cs) \<or> occursIn key cs)"

text \<open>
  \<open>s.replace(regex, v)\<close> with the \<open>g\<close> flag: the matches are taken from left to right
  without overlap; the empty pattern matches before every code unit and at the end.
\<close>

function replaceAll :: "string \<Rightarrow> string \<Rightarrow> string \<Rightarrow> string" where
  "replaceAll key v s =
     (if key = [] then v @ concat (map (\<lambda>c. c # v) s)
      else if s = [] then []
      else if matchesAt key s then v @ replaceAll key v (drop (length key) s)
      else hd s # replaceAll key v (tl s))"
  by pat_completeness auto
termination
  by (relation "measure (\<lambda>(key, v, s). length s)") (auto simp: Suc_le_eq)

declare replaceAll.simps [simp del]

text \<open>
  One step of the loop: the regular expression is built, and every match in the text is
  replaced by \<open>String(value)\<close>. The number is printed only where the name occurs:
  printing has no effect of its own, so an expression that does not mention a variable
  is the same whatever the value of that variable. A name that is not a regular
  expression makes the step raise, whether it occurs in the text or not. The other names
  with a syntax character are regular expressions in their own right, whose matches the
  model does not compute.
\<close>

definition regexReplace :: "string \<Rightarrow> jsnum \<Rightarrow> string \<Rightarrow> string host" where
  "regexReplace key v s =
     (if literalPattern key
      then Returns (if occursIn key s then replaceAll key (numberToString v) s else s)
      else if invalidPattern key then Raises
      else Unmodelled)"

section \<open>The host's evaluation of a residue\<close>

text \<open>
  \<open>new Function(`"use strict"; return (${processedExpr})`)()\<close> hands the residue to the
  host language. The source calls it only on residues made of digits, white space and
  \<open>+ - * / ( ) .\<close>, and the model follows the language on these: numeric literals,
  comments, the unary and binary operators, parentheses, line terminators inside
  parentheses. The call returns a number. Or it raises: a SyntaxError when the text does
  not parse, a TypeError when it calls a number; the source catches both alike. Three
  kinds of text are outside the model. The operator \<open>**\<close>: the language leaves the value
  of an exponentiation to the implementation. A \<open>/\<close> where an operand is expected: it
  starts a regular-expression literal, whose value is not a number. A line terminator
  outside all parentheses, which a residue reaches by closing the parenthesis of the
  \<open>return\<close>: the language may end the statement there.
\<close>

datatype token =
    TNum jsnum | TPlus | TMinus | TStar | TSlash | TLParen | TRParen
  | TIncr | TDecr | TDot | TLegacyOctal | TUnterminatedComment

fun digitsValue :: "string \<Rightarrow> int" where
  "digitsValue ds = foldl (\<lambda>n c. 10 * n + int (digitValue c)) 0 ds"

text \<open>
  A numeric literal that starts with the code unit \<open>c\<close>, followed by \<open>cs\<close>: either
  \<open>.\<close> and digits, or digits with an optional \<open>.\<close> and further digits. Returns the
  token and the text after the literal. An integer part of several digits that starts
  with \<open>0\<close> is a legacy octal literal, which strict code rejects. The value of a
  literal is the double nearest to the decimal that it spells.
\<close>

definition literalToken :: "string \<Rightarrow> string \<Rightarrow> token" where
  "literalToken ip fp =
     (if 1 < length ip \<and> hd ip = CHR ''0'' then TLegacyOctal
      else TNum (nearestDouble
                   (of_int (digitsValue ip) + of_int (digitsValue fp) / 10 ^ length fp)))"

definition numericLiteral :: "char \<Rightarrow> string \<Rightarrow> token \<times> string" where
  "numericLiteral c cs =
     (if c = CHR ''.'' then (literalToken [] (takeWhile isDigit cs), dropWhile isDigit cs)
      else (let ip = c # takeWhile isDigit cs; r = dropWhile isDigit cs
            in case r of
                 d # r' \<Rightarrow>
                   if d = CHR ''.''
                   then (literalToken ip (takeWhile isDigit r'), dropWhile isDigit r')
                   else (literalToken ip [], r)
               | [] \<Rightarrow> (literalToken ip [], r)))"

text \<open>The text after the \<open>*/\<close> that closes a block comment, if there is one.\<close>

fun skipBlockComment :: "string \<Rightarrow> string option" where
  "skipBlockComment [] = None"
| "skipBlockComment [c] = None"
| "skipBlockComment (c # d # cs) =
     (if c = CHR ''*'' \<and> d = CHR ''/'' then Some cs else skipBlockComment (d # cs))"

text \<open>
  The tokens of a text; \<open>depth\<close> is the number of parentheses that are open. Inside
  parentheses a line terminator separates tokens as white space does. A line comment
  runs to the next line terminator, or to the end of the text. \<open>None\<close>: the text has
  \<open>**\<close>, or a line terminator outside all parentheses (a block comment with a line
  terminator counts as one), or a code unit that is no part of a residue.
\<close>

function lex :: "nat \<Rightarrow> string \<Rightarrow> token list option" where
  "lex depth [] = Some []"
| "lex depth (c # cs) =
     (if isWhiteSpace c then lex depth cs
      else if isLineTerminator c then (if depth = 0 then None else lex depth cs)
      else if isDigit c \<or> (c = CHR ''.'' \<and> cs \<noteq> [] \<and> isDigit (hd cs))
        then map_option ((#) (fst (numericLiteral c cs))) (lex depth (snd (numericLiteral c cs)))
      else if c = CHR ''.'' then map_option ((#) TDot) (lex depth cs)
      else if c = CHR ''('' then map_option ((#) TLParen) (lex (Suc depth) cs)
      else if c = CHR '')'' then map_option ((#) TRParen) (lex (depth - 1) cs)
      else if c = CHR ''+'' then
        (case cs of
           d # cs' \<Rightarrow> if d = CHR ''+'' then map_option ((#) TIncr) (lex depth cs')
                      else map_option ((#) TPlus) (lex depth cs)
         | [] \<Rightarrow> map_option ((#) TPlus) (lex depth cs))
      else if c = CHR ''-'' then
        (case cs of
           d # cs' \<Rightarrow> if d = CHR ''-'' then map_option ((#) TDecr) (lex depth cs')
                      else map_option ((#) TMinus) (lex depth cs)
         | [] \<Rightarrow> map_option ((#) TMinus) (lex depth cs))
      else if c = CHR ''*'' then
        (case cs of
           d # cs' \<Rightarrow> if d = CHR ''*'' then None else map_option ((#) TStar) (lex depth cs)
         | [] \<Rightarrow> map_option ((#) TStar) (lex depth cs))
      else if c = CHR ''/'' then
        (case cs of
           d # cs' \<Rightarrow>
             if d = CHR ''/'' then lex depth (dropWhile (\<lambda>x. \<not> isLineTerminator x) cs')
             else if d = CHR ''*'' then
               (case skipBlockComment cs' of
                  None \<Rightarrow> Some [TUnterminatedComment]
                | Some r \<Rightarrow>
                    if depth = 0 \<and> list_ex isLineTerminator (take (length cs' - length r) cs')
                    then None
                    else lex depth r)
             else map_option ((#) TSlash) (lex depth cs)
         | [] \<Rightarrow> map_option ((#) TSlash) (lex depth cs))
      else None)"
  by pat_completeness auto
termination
proof (relation "measure (\<lambda>(depth, s). length s)")
  fix c :: char and cs :: string
  have a: "length (dropWhile isDigit cs) \<le> length cs"
    by (rule length_dropWhile_le)
  have b: "length (dropWhile isDigit r') \<le> length cs"
    if "dropWhile isDigit cs = d # r'" for d r'
  proof -
    have "length (dropWhile isDigit r') \<le> length r'"
      by (rule length_dropWhile_le)
    also have "\<dots> \<le> length (dropWhile isDigit cs)"
      using that by simp
    finally show ?thesis using a by simp
  qed
  have "length (snd (numericLiteral c cs)) \<le> length cs"
    using a b by (auto simp: numericLiteral_def Let_def split: list.splits)
  then show "((depth, snd (numericLiteral c cs)), (depth, c # cs))
               \<in> measure (\<lambda>(depth, s). length s)" for depth :: nat
    by simp
next
  fix depth :: nat and c :: char and cs :: string and d :: char and cs' :: string
  assume "cs = d # cs'"
  moreover have "length (dropWhile (\<lambda>x. \<not> isLineTerminator x) cs') \<le> length cs'"
    by (rule length_dropWhile_le)
  ultimately show "((depth, dropWhile (\<lambda>x. \<not> isLineTerminator x) cs'), (depth, c # cs))
                     \<in> measure (\<lambda>(depth, s). length s)"
    by simp
next
  fix depth :: nat and c :: char and cs :: string and d :: char and cs' r :: string
  assume cs: "cs = d # cs'" and skip: "skipBlockComment cs' = Some r"
  have "skipBlockComment xs = Some ys \<Longrightarrow> length ys < length xs" for xs ys
    by (induction xs arbitrary: ys rule: skipBlockComment.induct) (auto split: if_splits)
  from this [OF skip] cs show "((depth, r), (depth, c # cs)) \<in> measure (\<lambda>(depth, s). length s)"
    by simp
qed auto

declare lex.simps [simp del]

text \<open>
  Expressions over the tokens: literals, unary \<open>+\<close> and \<open>-\<close>, the four binary operators
  with their usual precedence, all left associative, and parentheses.
\<close>

datatype operator = OAdd | OSub | OMul | ODiv | OPos | ONeg | OParen

datatype expr = Lit jsnum | Unary operator expr | Binary operator expr expr

fun precedence :: "operator \<Rightarrow> nat" where
  "precedence OParen = 0"
| "precedence OAdd = 1"
| "precedence OSub = 1"
| "precedence OMul = 2"
| "precedence ODiv = 2"
| "precedence OPos = 3"
| "precedence ONeg = 3"

definition isUnary :: "operator \<Rightarrow> bool" where
  "isUnary op = (op = OPos \<or> op = ONeg)"

text \<open>Builds the node of the operator on top of the operator stack from the operands.\<close>

fun build :: "operator \<Rightarrow> expr list \<Rightarrow> expr list" where
  "build op (e # es) =
     (if isUnary op then Unary op e # es
      else (case es of l # es' \<Rightarrow> Binary op l e # es' | [] \<Rightarrow> []))"
| "build op [] = []"

text \<open>
  Pops, and builds, the pending operators that bind at least as tightly as \<open>p\<close>; an open
  parenthesis stops it.
\<close>

fun reduce :: "nat \<Rightarrow> operator list \<Rightarrow> expr list \<Rightarrow> operator list \<times> expr list" where
  "reduce p [] es = ([], es)"
| "reduce p (op # ops) es =
     (if op \<noteq> OParen \<and> p \<le> precedence op then reduce p ops (build op es)
      else (op # ops, es))"

text \<open>
  The parser reads the tokens from left to right with a stack of pending operators and a
  stack of operands; \<open>operand\<close> says whether an operand is expected next.
  Where an operand is expected: a literal, a unary sign or an open parenthesis; a \<open>/\<close>
  there starts a regular-expression literal. Where an operator is expected: a binary
  operator or a closing parenthesis; a literal there is a syntax error, and an open
  parenthesis there is a call of what precedes it, a number, which raises whatever
  follows. \<open>++\<close> and \<open>--\<close> have no assignable operand in a residue, \<open>.\<close> has no property
  name after it.
\<close>

fun parse :: "token list \<Rightarrow> operator list \<Rightarrow> expr list \<Rightarrow> bool \<Rightarrow> expr host" where
  "parse [] ops es operand =
     (if operand then Raises
      else (case reduce 1 ops es of
              ([], [e]) \<Rightarrow> Returns e
            | _ \<Rightarrow> Raises))"
| "parse (t # ts) ops es True =
     (case t of
        TNum v \<Rightarrow> parse ts ops (Lit v # es) False
      | TPlus \<Rightarrow> parse ts (OPos # ops) es True
      | TMinus \<Rightarrow> parse ts (ONeg # ops) es True
      | TLParen \<Rightarrow> parse ts (OParen # ops) es True
      | TSlash \<Rightarrow> Unmodelled
      | _ \<Rightarrow> Raises)"
| "parse (t # ts) ops es False =
     (case t of
        TPlus \<Rightarrow> (case reduce 1 ops es of (ops', es') \<Rightarrow> parse ts (OAdd # ops') es' True)
      | TMinus \<Rightarrow> (case reduce 1 ops es of (ops', es') \<Rightarrow> parse ts (OSub # ops') es' True)
      | TStar \<Rightarrow> (case reduce 2 ops es of (ops', es') \<Rightarrow> parse ts (OMul # ops') es' True)
      | TSlash \<Rightarrow> (case reduce 2 ops es of (ops', es') \<Rightarrow> parse ts (ODiv # ops') es' True)
      | TRParen \<Rightarrow>
          (case reduce 1 ops es of
             (OParen # ops', es') \<Rightarrow> parse ts ops' es' False
           | _ \<Rightarrow> Raises)
      | TLParen \<Rightarrow> Raises
      | _ \<Rightarrow> Raises)"

fun evalExpr :: "expr \<Rightarrow> jsnum" where
  "evalExpr (Lit v) = v"
| "evalExpr (Unary op e) = (if op = ONeg then jneg (evalExpr e) else evalExpr e)"
| "evalExpr (Binary op l r) =
     (if op = OAdd then jadd (evalExpr l) (evalExpr r)
      else if op = OSub then jsub (evalExpr l) (evalExpr r)
      else if op = OMul then jmul (evalExpr l) (evalExpr r)
      else jdiv (evalExpr l) (evalExpr r))"

text \<open>
  The function body is \<open>return (\<close>, the residue and \<open>)\<close>: the parentheses are lexed with
  the residue, since a comment in the residue can swallow the closing one.
\<close>

definition jsFunction :: "string \<Rightarrow> jsnum host" where
  "jsFunction processedExpr =
     (case lex 0 (''('' @ processedExpr @ '')'') of
        None \<Rightarrow> Unmodelled
      | Some ts \<Rightarrow>
          (case parse ts [] [] True of
             Returns e \<Rightarrow> Returns (evalExpr e)
           | Raises \<Rightarrow> Raises
           | Unmodelled \<Rightarrow> Unmodelled))"

section \<open>Safe expression evaluator\<close>

text \<open>
  An \<open>ExpressionContext\<close> is an object that maps variable names to numbers. The order of
  its keys matters to the evaluator, so it is a list of entries with distinct keys, in the
  order in which the keys were first written; writing a key again keeps its place
  (\<open>AList.update\<close>). \<open>Object.keys\<close> lists the keys that are array indices first, in
  ascending order, and then the others in that order.
\<close>

type_synonym ExpressionContext = "(string \<times> jsnum) list"

definition isArrayIndex :: "string \<Rightarrow> bool" where
  "isArrayIndex k =
     (k \<noteq> [] \<and> list_all isDigit k \<and> (k = ''0'' \<or> hd k \<noteq> CHR ''0'')
      \<and> digitsValue k < 4294967295)"

definition objectKeys :: "ExpressionContext \<Rightarrow> string list" where
  "objectKeys context =
     (let ks = map fst context
      in sort_key digitsValue (filter isArrayIndex ks) @ filter (\<lambda>k. \<not> isArrayIndex k) ks)"

text \<open>
  \<open>Object.keys(context).sort((a, b) => b.length - a.length)\<close>: longest names first; the
  sort is stable.
\<close>

definition sortedKeys :: "ExpressionContext \<Rightarrow> string list" where
  "sortedKeys context = sort_key (\<lambda>k. - int (length k)) (objectKeys context)"

text \<open>
  The loop that replaces every occurrence of each variable by its value. Every key comes
  from the context, so the test \<open>value !== undefined\<close> holds; a key without an entry
  leaves the text as it is. The loop is not inside the \<open>try\<close> of the source: when a step
  raises, so does the loop.
\<close>

fun substitute :: "ExpressionContext \<Rightarrow> string list \<Rightarrow> string \<Rightarrow> string host" where
  "substitute context [] processedExpr = Returns processedExpr"
| "substitute context (key # keys) processedExpr =
     (case map_of context key of
        None \<Rightarrow> substitute context keys processedExpr
      | Some v \<Rightarrow>
          (case regexReplace key v processedExpr of
             Returns processedExpr' \<Rightarrow> substitute context keys processedExpr'
           | Raises \<Rightarrow> Raises
           | Unmodelled \<Rightarrow> Unmodelled))"

text \<open>\<open>/^[\d\s+\-*/().]+$/\<close>: one or more code units, each of the class.\<close>

definition safeChar :: "char \<Rightarrow> bool" where
  "safeChar c = (isDigit c \<or> isSpace c \<or> c \<in> set ''+-*/().'')"

definition safePattern :: "string \<Rightarrow> bool" where
  "safePattern s = (s \<noteq> [] \<and> list_all safeChar s)"

datatype expression = ExprNumber jsnum | ExprString string

text \<open>The residue: the expression in lower case, trimmed, after the substitution.\<close>

definition residue :: "string \<Rightarrow> ExpressionContext \<Rightarrow> string host" where
  "residue expression context =
     substitute context (sortedKeys context) (trim (toLowerCase expression))"

text \<open>\<open>Math.round(result * 100) / 100\<close>.\<close>

definition round2 :: "jsnum \<Rightarrow> jsnum" where
  "round2 result = jdiv (mathRound (jmul result (num 100))) (num 100)"

text \<open>
  \<open>evaluateExpression\<close>. A value of the host function is a number here, so the test
  \<open>typeof result === 'number'\<close> holds for it; the \<open>catch\<close> clause turns an exception of
  the host function into 0. An exception of the substitution is not caught.
\<close>

definition evaluateExpression :: "expression \<Rightarrow> ExpressionContext \<Rightarrow> jsnum host" where
  "evaluateExpression expression context =
     (case expression of
        ExprNumber n \<Rightarrow> Returns n
      | ExprString e \<Rightarrow>
          (case residue e context of
             Raises \<Rightarrow> Raises
           | Unmodelled \<Rightarrow> Unmodelled
           | Returns processedExpr \<Rightarrow>
               if \<not> safePattern processedExpr then Returns (num 0)
               else (case jsFunction processedExpr of
                       Returns result \<Rightarrow>
                         Returns (if \<not> isNaN result then round2 result else num 0)
                     | Raises \<Rightarrow> Returns (num 0)
                     | Unmodelled \<Rightarrow> Unmodelled)))"

section \<open>Data model\<close>

text \<open>
  The interfaces of the source, with the fields that the engine reads. A field \<open>f\<close> whose
  name is shared by several interfaces, or is a name of the logic, carries the name of
  its interface. An optional field is an \<open>option\<close>.
\<close>

record Material =
  Material_id :: string
  Material_thickness :: jsnum

datatype zone_type =
  Drawer | Door | Shelf | Opening | FixedShelf | ApplianceSpace | Divider

record PatternZone =
  Zone_id :: string
  Zone_type :: zone_type

record PatternColumn =
  Column_id :: string
  Column_zones :: "PatternZone list"

record MaterialAssignment =
  Assigned_materialId :: string
  Assigned_thickness :: jsnum

record PatternMaterials =
  Pattern_carcass :: "MaterialAssignment option"
  Pattern_back :: "MaterialAssignment option"
  Pattern_front :: "MaterialAssignment option"
  Pattern_shelf :: "MaterialAssignment option"

text \<open>An edge-banding flag is a boolean or a string.\<close>

datatype flag = FlagBool bool | FlagString string

record EdgeBanding =
  length1 :: "flag option"
  length2 :: "flag option"
  width1 :: "flag option"
  width2 :: "flag option"

record PartRule =
  Rule_id :: string
  Rule_partName :: string
  lengthExpression :: string
  widthExpression :: string
  quantityExpression :: string
  Rule_materialId :: "string option"
  Rule_material :: "string option"
  Rule_grain :: "string option"
  Rule_edgeBanding :: "EdgeBanding option"

record CabinetPattern =
  columns :: "PatternColumn list option"
  columnProportions :: "jsnum list option"
  zones :: "PatternZone list"
  partRules :: "PartRule list"
  materials :: "PatternMaterials option"
  variables :: "(string \<times> jsnum) list option"

record GlobalSettings =
  materialThickness :: jsnum
  backPanelThickness :: jsnum
  backPanelGrooveDepth :: jsnum
  defaultEdgeBanding :: jsnum

record Dimensions =
  height :: jsnum
  width :: jsnum
  depth :: jsnum

datatype side_construction = SidesOnBottom | BottomBetweenSides | AllBetween

datatype back_panel_method = Overlay | InsetGroove | InsetRebate

datatype drawer_construction = DrawerSidesOnBottom | BottomInGroove

record Construction =
  sideConstruction :: side_construction
  backPanelMethod :: back_panel_method
  drawerConstruction :: drawer_construction

record Offsets =
  drawerFrontGap :: jsnum
  doorGap :: jsnum
  shelfInset :: jsnum
  drawerSlideOffset :: jsnum
  Offsets_backPanelThickness :: jsnum
  backGrooveDepth :: jsnum

record RuleSet =
  construction :: Construction
  offsets :: Offsets

record CutPart =
  Part_partName :: string
  Part_length :: jsnum
  Part_width :: jsnum
  Part_quantity :: jsnum
  Part_materialId :: "string option"
  Part_material :: "string option"
  Part_grain :: "string option"
  Part_edgeBanding :: "string option"

section \<open>Expression context builder\<close>

text \<open>\<open>pattern.materials?.role?.thickness\<close>.\<close>

definition roleThickness ::
  "(PatternMaterials \<Rightarrow> MaterialAssignment option) \<Rightarrow> CabinetPattern \<Rightarrow> jsnum option" where
  "roleThickness role pattern =
     (case materials pattern of
        None \<Rightarrow> None
      | Some ms \<Rightarrow> map_option Assigned_thickness (role ms))"

text \<open>
  The effective thicknesses, first lines of \<open>buildExpressionContext\<close>: the constants
  \<open>materialThickness\<close>, \<open>backPanelThickness\<close>, \<open>frontThickness\<close> and \<open>shelfThickness\<close>
  of the source.
\<close>

definition effMaterialThickness :: "GlobalSettings \<Rightarrow> CabinetPattern \<Rightarrow> jsnum" where
  "effMaterialThickness settings pattern =
     nullish (roleThickness Pattern_carcass pattern) (materialThickness settings)"

definition effBackPanelThickness :: "GlobalSettings \<Rightarrow> CabinetPattern \<Rightarrow> jsnum" where
  "effBackPanelThickness settings pattern =
     nullish (roleThickness Pattern_back pattern) (backPanelThickness settings)"

definition effFrontThickness :: "GlobalSettings \<Rightarrow> CabinetPattern \<Rightarrow> jsnum" where
  "effFrontThickness settings pattern =
     nullish (roleThickness Pattern_front pattern) (effMaterialThickness settings pattern)"

definition effShelfThickness :: "GlobalSettings \<Rightarrow> CabinetPattern \<Rightarrow> jsnum" where
  "effShelfThickness settings pattern =
     nullish (roleThickness Pattern_shelf pattern) (effMaterialThickness settings pattern)"

text \<open>\<open>pattern.columns && pattern.columns.length > 0\<close>, with the columns when it holds.\<close>

definition patternColumns :: "CabinetPattern \<Rightarrow> PatternColumn list" where
  "patternColumns pattern = (case columns pattern of None \<Rightarrow> [] | Some cs \<Rightarrow> cs)"

definition countZones :: "(zone_type \<Rightarrow> bool) \<Rightarrow> CabinetPattern \<Rightarrow> jsnum" where
  "countZones p pattern =
     (if patternColumns pattern \<noteq> []
      then num (int (sum_list (map (\<lambda>column. length (filter (\<lambda>z. p (Zone_type z)) (Column_zones column)))
                                   (patternColumns pattern))))
      else num (int (length (filter (\<lambda>z. p (Zone_type z)) (zones pattern)))))"

text \<open>
  The construction method: \<open>ruleSet?.construction.sideConstruction || 'sides-on-bottom'\<close>;
  the three methods are non-empty strings, so the default is taken without a rule set.
\<close>

definition sideConstructionOf :: "RuleSet option \<Rightarrow> side_construction" where
  "sideConstructionOf ruleSet =
     (case ruleSet of None \<Rightarrow> SidesOnBottom | Some rs \<Rightarrow> sideConstruction (construction rs))"

definition backPanelMethodOf :: "RuleSet option \<Rightarrow> back_panel_method" where
  "backPanelMethodOf ruleSet =
     (case ruleSet of None \<Rightarrow> Overlay | Some rs \<Rightarrow> backPanelMethod (construction rs))"

text \<open>The \<open>switch\<close> on the construction method.\<close>

definition sideHeight :: "side_construction \<Rightarrow> jsnum \<Rightarrow> jsnum \<Rightarrow> jsnum" where
  "sideHeight sc h t =
     (case sc of
        SidesOnBottom \<Rightarrow> h
      | BottomBetweenSides \<Rightarrow> jsub h t
      | AllBetween \<Rightarrow> jsub h (jmul (num 2) t))"

definition bottomWidth :: "side_construction \<Rightarrow> jsnum \<Rightarrow> jsnum \<Rightarrow> jsnum" where
  "bottomWidth sc w t =
     (case sc of
        SidesOnBottom \<Rightarrow> jsub w (jmul (num 2) t)
      | BottomBetweenSides \<Rightarrow> w
      | AllBetween \<Rightarrow> jsub w (jmul (num 2) t))"

definition topWidth :: "side_construction \<Rightarrow> jsnum \<Rightarrow> jsnum \<Rightarrow> jsnum" where
  "topWidth sc w t =
     (case sc of
        SidesOnBottom \<Rightarrow> jsub w (jmul (num 2) t)
      | BottomBetweenSides \<Rightarrow> jsub w (jmul (num 2) t)
      | AllBetween \<Rightarrow> jsub w (jmul (num 2) t))"

text \<open>\<open>ruleSet?.offsets.field || fallback\<close>.\<close>

definition offsetOr :: "RuleSet option \<Rightarrow> (Offsets \<Rightarrow> jsnum) \<Rightarrow> jsnum \<Rightarrow> jsnum" where
  "offsetOr ruleSet field fallback =
     (case ruleSet of None \<Rightarrow> fallback | Some rs \<Rightarrow> orElse (field (offsets rs)) fallback)"

text \<open>\<open>id.replace(/-/g, '_')\<close>.\<close>

definition dashesToUnderscores :: "string \<Rightarrow> string" where
  "dashesToUnderscores s = map (\<lambda>c. if c = CHR ''-'' then CHR ''_'' else c) s"

text \<open>\<open>array[index]\<close>: absent beyond the end of the array.\<close>

definition elementAt :: "'a list \<Rightarrow> nat \<Rightarrow> 'a option" where
  "elementAt xs i = (if i < length xs then Some (xs ! i) else None)"

text \<open>\<open>array[index] || fallback\<close> on numbers: an absent element is falsy too.\<close>

definition atOr :: "jsnum list \<Rightarrow> nat \<Rightarrow> jsnum \<Rightarrow> jsnum" where
  "atOr xs i fallback = (case elementAt xs i of None \<Rightarrow> fallback | Some v \<Rightarrow> orElse v fallback)"

text \<open>Writing a list of entries into a context, one assignment after the other.\<close>

definition assign :: "(string \<times> jsnum) list \<Rightarrow> ExpressionContext \<Rightarrow> ExpressionContext" where
  "assign entries context = fold (\<lambda>(k, v). AList.update k v) entries context"

text \<open>The object literal \<open>context\<close> of \<open>buildExpressionContext\<close>.\<close>

definition baseContext ::
  "Dimensions \<Rightarrow> GlobalSettings \<Rightarrow> CabinetPattern \<Rightarrow> RuleSet option \<Rightarrow> ExpressionContext" where
  "baseContext dimensions settings pattern ruleSet =
     (let t = effMaterialThickness settings pattern;
          sc = sideConstructionOf ruleSet;
          inner = (\<lambda>x. jsub x (jmul (num 2) t));
          groove = jmul (num 2) (backPanelGrooveDepth settings);
          backWidth = (if backPanelMethodOf ruleSet = Overlay then inner (width dimensions)
                       else jsub (inner (width dimensions)) groove);
          backHeight = (if backPanelMethodOf ruleSet = Overlay then inner (height dimensions)
                        else jsub (inner (height dimensions)) groove)
      in [(''total_height'', height dimensions),
          (''total_width'', width dimensions),
          (''total_depth'', depth dimensions),
          (''material_thickness'', t),
          (''thickness'', t),
          (''carcass_thickness'', t),
          (''front_thickness'', effFrontThickness settings pattern),
          (''shelf_thickness'', effShelfThickness settings pattern),
          (''back_thickness'',
             offsetOr ruleSet Offsets_backPanelThickness (effBackPanelThickness settings pattern)),
          (''back_groove'', offsetOr ruleSet backGrooveDepth (backPanelGrooveDepth settings)),
          (''edge_banding'', defaultEdgeBanding settings),
          (''side_height'', sideHeight sc (height dimensions) t),
          (''bottom_width'', bottomWidth sc (width dimensions) t),
          (''top_width'', topWidth sc (width dimensions) t),
          (''back_width'', backWidth),
          (''back_height'', backHeight),
          (''internal_width'', inner (width dimensions)),
          (''internal_height'', inner (height dimensions)),
          (''internal_depth'', jsub (depth dimensions) (backPanelGrooveDepth settings)),
          (''drawer_front_gap'', offsetOr ruleSet drawerFrontGap (num 3)),
          (''door_gap'', offsetOr ruleSet doorGap (num 3)),
          (''shelf_inset'', offsetOr ruleSet shelfInset (num 20)),
          (''drawer_slide_offset'', offsetOr ruleSet drawerSlideOffset (Finite (25 / 2))),
          (''drawer_count'', countZones (\<lambda>zt. zt = Drawer) pattern),
          (''door_count'', countZones (\<lambda>zt. zt = Door) pattern),
          (''shelf_count'', countZones (\<lambda>zt. zt = Shelf \<or> zt = FixedShelf) pattern),
          (''remaining_height'', inner (height dimensions)),
          (''column_count'',
             (case columns pattern of
                None \<Rightarrow> num 1
              | Some cs \<Rightarrow> orElse (num (int (length cs))) (num 1)))])"

text \<open>
  The column-width variables, in the order in which the \<open>forEach\<close> writes them: for the
  column at \<open>index\<close>, first \<open>column_<index>_width\<close>, then the name derived from the
  column id.
\<close>

definition columnWidth :: "jsnum \<Rightarrow> jsnum list \<Rightarrow> nat \<Rightarrow> nat \<Rightarrow> jsnum" where
  "columnWidth internalWidth proportions n index =
     mathRound (jmul internalWidth (atOr proportions index (jdiv (num 1) (num (int n)))))"

definition columnWidthEntries ::
  "jsnum \<Rightarrow> jsnum list \<Rightarrow> PatternColumn list \<Rightarrow> (string \<times> jsnum) list" where
  "columnWidthEntries internalWidth proportions cols =
     concat (map (\<lambda>(index, column).
                    (let colWidth = columnWidth internalWidth proportions (length cols) index
                     in [(''column_'' @ natToString index @ ''_width'', colWidth),
                         (dashesToUnderscores (Column_id column) @ ''_width'', colWidth)]))
                 (enumerate 0 cols))"

definition buildExpressionContext ::
  "Dimensions \<Rightarrow> GlobalSettings \<Rightarrow> CabinetPattern \<Rightarrow> RuleSet option \<Rightarrow> ExpressionContext" where
  "buildExpressionContext dimensions settings pattern ruleSet =
     (let context = baseContext dimensions settings pattern ruleSet;
          context =
            (if patternColumns pattern \<noteq> [] then
               (let internalWidth = jsub (width dimensions)
                                      (jmul (num 2) (effMaterialThickness settings pattern));
                    n = length (patternColumns pattern);
                    proportions =
                      (case columnProportions pattern of
                         Some ps \<Rightarrow> ps
                       | None \<Rightarrow> map (\<lambda>_. jdiv (num 1) (num (int n))) (patternColumns pattern))
                in assign (columnWidthEntries internalWidth proportions (patternColumns pattern))
                     context)
             else context)
      in (case variables pattern of
            None \<Rightarrow> context
          | Some vs \<Rightarrow> assign vs context))"

text \<open>
  The names that \<open>buildExpressionContext\<close> writes after the object literal: the
  column-width variables and the variables of the pattern, which are merged last and
  shadow a built-in variable of the same name.
\<close>

definition columnWidthNames :: "PatternColumn list \<Rightarrow> string list" where
  "columnWidthNames cols =
     concat (map (\<lambda>(index, column).
                    [''column_'' @ natToString index @ ''_width'',
                     dashesToUnderscores (Column_id column) @ ''_width''])
                 (enumerate 0 cols))"

definition variableNames :: "CabinetPattern \<Rightarrow> string list" where
  "variableNames pattern = (case variables pattern of None \<Rightarrow> [] | Some vs \<Rightarrow> map fst vs)"

definition laterWrites :: "CabinetPattern \<Rightarrow> string list" where
  "laterWrites pattern = columnWidthNames (patternColumns pattern) @ variableNames pattern"

section \<open>Material thickness resolution\<close>

text \<open>\<open>getMaterialThickness\<close>: an absent or empty id, or an id that is not in the library,
  gives the fallback.\<close>

definition getMaterialThickness :: "string option \<Rightarrow> Material list \<Rightarrow> jsnum \<Rightarrow> jsnum" where
  "getMaterialThickness materialId materialsList fallbackThickness =
     (case materialId of
        None \<Rightarrow> fallbackThickness
      | Some mid \<Rightarrow>
          if mid = [] then fallbackThickness
          else nullish (map_option Material_thickness
                          (find (\<lambda>m. Material_id m = mid) materialsList))
                 fallbackThickness)"

section \<open>Main part calculator\<close>

text \<open>
  The zone-height variables. \<open>internalHeight\<close> is taken from the global material
  thickness. A column-based pattern divides it equally among the zones of each column;
  a flat pattern uses the proportions of the caller when there is one per zone, and the
  equal division otherwise.
\<close>

definition zoneHeight :: "jsnum \<Rightarrow> jsnum \<Rightarrow> jsnum" where
  "zoneHeight internalHeight proportion = mathRound (jmul internalHeight proportion)"

definition columnZoneEntries ::
  "jsnum \<Rightarrow> nat \<Rightarrow> PatternColumn \<Rightarrow> (string \<times> jsnum) list" where
  "columnZoneEntries internalHeight colIdx column =
     concat (map (\<lambda>(zoneIdx, zone).
                    (let h = zoneHeight internalHeight
                               (jdiv (num 1) (num (int (length (Column_zones column)))))
                     in [(''col_'' @ natToString colIdx @ ''_zone_'' @ natToString zoneIdx
                            @ ''_height'', h),
                         (dashesToUnderscores (Zone_id zone) @ ''_height'', h)]))
                 (enumerate 0 (Column_zones column)))"

definition flatProportions :: "jsnum list option \<Rightarrow> PatternZone list \<Rightarrow> jsnum list" where
  "flatProportions zoneProportions zs =
     (case zoneProportions of
        None \<Rightarrow> map (\<lambda>_. jdiv (num 1) (orElse (num (int (length zs))) (num 1))) zs
      | Some ps \<Rightarrow>
          if length ps = length zs then ps
          else map (\<lambda>_. jdiv (num 1) (orElse (num (int (length zs))) (num 1))) zs)"

definition flatZoneEntries :: "jsnum \<Rightarrow> jsnum list \<Rightarrow> PatternZone list \<Rightarrow> (string \<times> jsnum) list" where
  "flatZoneEntries internalHeight proportions zs =
     concat (map (\<lambda>(index, zone).
                    (let h = zoneHeight internalHeight (proportions ! index)
                     in [(''zone_'' @ natToString index @ ''_height'', h),
                         (dashesToUnderscores (Zone_id zone) @ ''_height'', h)]))
                 (enumerate 0 zs))"

definition zoneHeightEntries ::
  "CabinetPattern \<Rightarrow> Dimensions \<Rightarrow> GlobalSettings \<Rightarrow> jsnum list option \<Rightarrow> (string \<times> jsnum) list" where
  "zoneHeightEntries pattern dimensions globalSettings zoneProportions =
     (let internalHeight = jsub (height dimensions)
                             (jmul (num 2) (materialThickness globalSettings))
      in if patternColumns pattern \<noteq> []
         then concat (map (\<lambda>(colIdx, column). columnZoneEntries internalHeight colIdx column)
                        (enumerate 0 (patternColumns pattern)))
         else flatZoneEntries internalHeight
                (flatProportions zoneProportions (zones pattern)) (zones pattern))"

text \<open>The context of the rules: the built context, the overrides, the zone heights.\<close>

definition rulesContext ::
  "CabinetPattern \<Rightarrow> Dimensions \<Rightarrow> GlobalSettings \<Rightarrow> (string \<times> jsnum) list option
     \<Rightarrow> jsnum list option \<Rightarrow> RuleSet option \<Rightarrow> ExpressionContext" where
  "rulesContext pattern dimensions globalSettings variableOverrides zoneProportions ruleSet =
     (let context = buildExpressionContext dimensions globalSettings pattern ruleSet;
          context = (case variableOverrides of
                       None \<Rightarrow> context
                     | Some overrides \<Rightarrow> assign overrides context)
      in assign (zoneHeightEntries pattern dimensions globalSettings zoneProportions) context)"

text \<open>The edge-banding label: \<open>L1\<close>, \<open>L2\<close>, \<open>W1\<close>, \<open>W2\<close> for the truthy flags, joined by
  a comma and a space; no label (\<open>undefined\<close>) when the string is empty.\<close>

definition flagSet :: "flag option \<Rightarrow> bool" where
  "flagSet f =
     (case f of
        None \<Rightarrow> False
      | Some (FlagBool b) \<Rightarrow> b
      | Some (FlagString str) \<Rightarrow> str \<noteq> [])"

fun join :: "string \<Rightarrow> string list \<Rightarrow> string" where
  "join sep [] = []"
| "join sep [x] = x"
| "join sep (x # y # ys) = x @ sep @ join sep (y # ys)"

definition edgeBandingLabel :: "EdgeBanding option \<Rightarrow> string option" where
  "edgeBandingLabel eb =
     (case eb of
        None \<Rightarrow> None
      | Some e \<Rightarrow>
          (let edges = (if flagSet (length1 e) then [''L1''] else [])
                     @ (if flagSet (length2 e) then [''L2''] else [])
                     @ (if flagSet (width1 e) then [''W1''] else [])
                     @ (if flagSet (width2 e) then [''W2''] else []);
               label = join '', '' edges
           in if label = [] then None else Some label))"

text \<open>
  The context of one rule: the shared context with \<open>part_thickness\<close>, the thickness of
  the rule's material, or \<open>context.material_thickness\<close> without one. The built context
  always has \<open>material_thickness\<close>.
\<close>

definition partThickness :: "ExpressionContext \<Rightarrow> Material list \<Rightarrow> PartRule \<Rightarrow> jsnum option" where
  "partThickness context materialsList rule =
     map_option (getMaterialThickness (Rule_materialId rule) materialsList)
       (map_of context ''material_thickness'')"

definition ruleContext :: "ExpressionContext \<Rightarrow> Material list \<Rightarrow> PartRule \<Rightarrow> ExpressionContext option" where
  "ruleContext context materialsList rule =
     map_option (\<lambda>pt. AList.update ''part_thickness'' pt context)
       (partThickness context materialsList rule)"

text \<open>One call after another: the second is made with the value of the first.\<close>

definition andThen :: "'a host \<Rightarrow> ('a \<Rightarrow> 'b host) \<Rightarrow> 'b host" where
  "andThen r f = (case r of Returns x \<Rightarrow> f x | Raises \<Rightarrow> Raises | Unmodelled \<Rightarrow> Unmodelled)"

text \<open>
  The body of the loop over the rules: the three evaluations, in the order of the
  source, then the test and the part. The value is \<open>None\<close> when the rule is skipped
  (\<open>continue\<close>) and the part that is pushed otherwise. The source has no \<open>try\<close> here.
\<close>

definition processRule ::
  "ExpressionContext \<Rightarrow> Material list \<Rightarrow> PartRule \<Rightarrow> CutPart option host" where
  "processRule context materialsList rule =
     (case ruleContext context materialsList rule of
        None \<Rightarrow> Unmodelled
      | Some rc \<Rightarrow>
          andThen (evaluateExpression (ExprString (lengthExpression rule)) rc) (\<lambda>len.
          andThen (evaluateExpression (ExprString (widthExpression rule)) rc) (\<lambda>wid.
          andThen (evaluateExpression (ExprString (quantityExpression rule)) rc) (\<lambda>q.
            (let quantity = mathMax (num 1) (mathRound q)
             in if jle len (num 0) \<or> jle wid (num 0) then Returns None
                else Returns (Some \<lparr>Part_partName = Rule_partName rule,
                                     Part_length = mathRound len,
                                     Part_width = mathRound wid,
                                     Part_quantity = quantity,
                                     Part_materialId = Rule_materialId rule,
                                     Part_material = Rule_material rule,
                                     Part_grain = Rule_grain rule,
                                     Part_edgeBanding =
                                       edgeBandingLabel (Rule_edgeBanding rule)\<rparr>))))))"

fun processRules ::
  "ExpressionContext \<Rightarrow> Material list \<Rightarrow> PartRule list \<Rightarrow> CutPart list host" where
  "processRules context materialsList [] = Returns []"
| "processRules context materialsList (rule # rules) =
     andThen (processRule context materialsList rule) (\<lambda>emitted.
     andThen (processRules context materialsList rules) (\<lambda>parts.
       Returns ((case emitted of None \<Rightarrow> [] | Some part \<Rightarrow> [part]) @ parts)))"

text \<open>\<open>calculateParts\<close>, with its seven parameters.\<close>

definition calculateParts ::
  "CabinetPattern \<Rightarrow> Dimensions \<Rightarrow> GlobalSettings \<Rightarrow> (string \<times> jsnum) list option
     \<Rightarrow> jsnum list option \<Rightarrow> RuleSet option \<Rightarrow> Material list option \<Rightarrow> CutPart list host" where
  "calculateParts pattern dimensions globalSettings variableOverrides zoneProportions ruleSet
     materialsArg =
     processRules
       (rulesContext pattern dimensions globalSettings variableOverrides zoneProportions ruleSet)
       (nullish materialsArg [])
       (partRules pattern)"

section \<open>The call in the header\<close>

text \<open>
  The project header computes the parts of every cabinet of the project. Its call passes
  ten arguments: after the material library come \<open>cabinet.materialOverrides\<close>, the
  edge-banding id and the joint types. \<open>calculateParts\<close> has seven parameters, and a call
  drops the arguments beyond the parameters of the callee.
\<close>

record CabinetInstance =
  Cabinet_dimensions :: Dimensions
  Cabinet_variableOverrides :: "(string \<times> jsnum) list option"
  Cabinet_zoneProportions :: "jsnum list option"
  Cabinet_materialOverrides :: "(string \<times> string) list option"

definition headerCabinetParts ::
  "CabinetPattern \<Rightarrow> CabinetInstance \<Rightarrow> GlobalSettings \<Rightarrow> RuleSet option \<Rightarrow> Material list
     \<Rightarrow> CutPart list host" where
  "headerCabinetParts pattern cabinet globalSettings defaultRuleSet materialsList =
     calculateParts pattern (Cabinet_dimensions cabinet) globalSettings
       (Cabinet_variableOverrides cabinet) (Cabinet_zoneProportions cabinet)
       defaultRuleSet (Some materialsList)"

section \<open>Example inputs\<close>

text \<open>
  A cabinet of 720 by 600 by 560 mm, the default settings of the application, a flat
  pattern without zones, a rule and a part without optional fields, a rule set, and two
  sets of pattern materials.
\<close>

definition exampleDimensions :: Dimensions where
  "exampleDimensions = \<lparr>height = num 720, width = num 600, depth = num 560\<rparr>"

definition exampleSettings :: GlobalSettings where
  "exampleSettings = \<lparr>materialThickness = num 18, backPanelThickness = num 6,
     backPanelGrooveDepth = num 10, defaultEdgeBanding = Finite (1 / 2)\<rparr>"

definition flatPattern :: "PartRule list \<Rightarrow> CabinetPattern" where
  "flatPattern rules = \<lparr>columns = None, columnProportions = None, zones = [],
     partRules = rules, materials = None, variables = None\<rparr>"

definition plainRule :: "string \<Rightarrow> string \<Rightarrow> string \<Rightarrow> string \<Rightarrow> PartRule" where
  "plainRule name len wid qty =
     \<lparr>Rule_id = ''rule-1'', Rule_partName = name, lengthExpression = len,
      widthExpression = wid, quantityExpression = qty, Rule_materialId = None,
      Rule_material = None, Rule_grain = None, Rule_edgeBanding = None\<rparr>"

definition plainPart :: "string \<Rightarrow> jsnum \<Rightarrow> jsnum \<Rightarrow> jsnum \<Rightarrow> CutPart" where
  "plainPart name len wid qty =
     \<lparr>Part_partName = name, Part_length = len, Part_width = wid, Part_quantity = qty,
      Part_materialId = None, Part_material = None, Part_grain = None,
      Part_edgeBanding = None\<rparr>"

definition exampleRuleSet :: "side_construction \<Rightarrow> jsnum \<Rightarrow> RuleSet" where
  "exampleRuleSet sc backOffset =
     \<lparr>construction = \<lparr>sideConstruction = sc, backPanelMethod = Overlay,
                       drawerConstruction = DrawerSidesOnBottom\<rparr>,
      offsets = \<lparr>drawerFrontGap = num 0, doorGap = num 2, shelfInset = num 20,
                 drawerSlideOffset = Finite (25 / 2), Offsets_backPanelThickness = backOffset,
                 backGrooveDepth = num 8\<rparr>\<rparr>"

definition withMaterials :: "PatternMaterials \<Rightarrow> CabinetPattern \<Rightarrow> CabinetPattern" where
  "withMaterials ms pattern = pattern\<lparr>materials := Some ms\<rparr>"

definition carcass16 :: PatternMaterials where
  "carcass16 =
     \<lparr>Pattern_carcass = Some \<lparr>Assigned_materialId = ''mdf-16'', Assigned_thickness = num 16\<rparr>,
      Pattern_back = None, Pattern_front = None, Pattern_shelf = None\<rparr>"

definition back8 :: PatternMaterials where
  "back8 =
     \<lparr>Pattern_carcass = None,
      Pattern_back = Some \<lparr>Assigned_materialId = ''hdf-8'', Assigned_thickness = num 8\<rparr>,
      Pattern_front = None, Pattern_shelf = None\<rparr>"



text \<open>A pattern of two columns, of two zones and of one zone, and a flat pattern of two
  zones.\<close>

definition columnOf :: "string \<Rightarrow> PatternZone list \<Rightarrow> PatternColumn" where
  "columnOf cid zs = \<lparr>Column_id = cid, Column_zones = zs\<rparr>"

definition zoneOf :: "string \<Rightarrow> zone_type \<Rightarrow> PatternZone" where
  "zoneOf zid zt = \<lparr>Zone_id = zid, Zone_type = zt\<rparr>"

definition twoColumns :: "jsnum list option \<Rightarrow> CabinetPattern" where
  "twoColumns ps =
     \<lparr>columns = Some [columnOf ''col-a'' [zoneOf ''a-top'' Door, zoneOf ''a-low'' Drawer],
                      columnOf ''col-b'' [zoneOf ''b-all'' Door]],
      columnProportions = ps, zones = [], partRules = [], materials = None,
      variables = None\<rparr>"

definition twoZones :: CabinetPattern where
  "twoZones =
     \<lparr>columns = None, columnProportions = None,
      zones = [zoneOf ''upper'' Door, zoneOf ''lower'' Drawer], partRules = [],
      materials = None, variables = None\<rparr>"

section \<open>Normalized proportions\<close>


section \<open>Reading a context\<close>

lemma map_of_assign_other:
  "k \<notin> fst ` set entries \<Longrightarrow> map_of (assign entries ctx) k = map_of ctx k"
  unfolding assign_def
  by (induction entries arbitrary: ctx) (auto simp: update_conv')

lemma map_of_assign_defined:
  "map_of ctx k \<noteq> None \<Longrightarrow> map_of (assign entries ctx) k \<noteq> None"
  unfolding assign_def
  by (induction entries arbitrary: ctx) (auto simp: update_conv')

lemma columnWidthEntries_names:
  "map fst (columnWidthEntries iw ps cols) = columnWidthNames cols"
  unfolding columnWidthEntries_def columnWidthNames_def
  by (simp add: map_concat Let_def case_prod_beta cong: map_cong)

text \<open>A built-in variable that is not written later keeps the value of the object literal.\<close>

lemma buildExpressionContext_base:
  assumes "name \<notin> set (laterWrites pattern)"
  shows "map_of (buildExpressionContext dimensions settings pattern ruleSet) name
         = map_of (baseContext dimensions settings pattern ruleSet) name"
proof -
  have cols: "name \<notin> fst ` set (columnWidthEntries iw ps (patternColumns pattern))" for iw ps
    using assms columnWidthEntries_names [of iw ps "patternColumns pattern"]
    by (metis UnI1 laterWrites_def set_append set_map)
  have vars: "variables pattern = Some vs \<Longrightarrow> name \<notin> fst ` set vs" for vs
    using assms by (simp add: laterWrites_def variableNames_def)
  show ?thesis
    unfolding buildExpressionContext_def Let_def
    by (auto simp: map_of_assign_other cols vars split: option.splits)
qed

text \<open>What holds of the object literal and is kept by every assignment holds of the
  built context, and of the context of the rules.\<close>

lemma buildExpressionContext_preserves:
  assumes step: "\<And>es c. P c \<Longrightarrow> P (assign es c)"
    and base: "P (baseContext dimensions settings pattern ruleSet)"
  shows "P (buildExpressionContext dimensions settings pattern ruleSet)"
  unfolding buildExpressionContext_def Let_def
  by (cases "variables pattern"; simp add: step base)

lemma rulesContext_preserves:
  assumes step: "\<And>es c. P c \<Longrightarrow> P (assign es c)"
    and built: "P (buildExpressionContext dimensions globalSettings pattern ruleSet)"
  shows "P (rulesContext pattern dimensions globalSettings variableOverrides zoneProportions ruleSet)"
  unfolding rulesContext_def Let_def
  by (cases variableOverrides; simp add: step built)

text \<open>The context of the rules always has \<open>material_thickness\<close>, which
  \<open>partThickness\<close> reads.\<close>

lemma material_thickness_defined:
  "map_of (rulesContext pattern dimensions globalSettings variableOverrides zoneProportions ruleSet)
     ''material_thickness'' \<noteq> None"
proof (rule rulesContext_preserves, erule map_of_assign_defined,
       rule buildExpressionContext_preserves, erule map_of_assign_defined)
  show "map_of (baseContext dimensions globalSettings pattern ruleSet) ''material_thickness'' \<noteq> None"
    by (simp add: baseContext_def Let_def)
qed

text \<open>An entry of a list of assignments with distinct names is read back.\<close>

lemma assign_Cons: "assign ((k, v) # es) ctx = assign es (AList.update k v ctx)"
  by (simp add: assign_def)

lemma map_of_assign_distinct:
  "distinct (map fst entries) \<Longrightarrow> (k, v) \<in> set entries
   \<Longrightarrow> map_of (assign entries ctx) k = Some v"
proof (induction entries arbitrary: ctx)
  case Nil
  then show ?case by simp
next
  case (Cons e es)
  obtain k0 v0 where e: "e = (k0, v0)" by (cases e)
  show ?case
  proof (cases "(k, v) = e")
    case True
    then have "k \<notin> fst ` set es"
      using Cons.prems(1) by force
    then show ?thesis
      using True e by (simp add: assign_Cons map_of_assign_other update_conv')
  next
    case False
    then have "(k, v) \<in> set es"
      using Cons.prems(2) by simp
    then show ?thesis
      using Cons.IH [of "AList.update k0 v0 ctx"] Cons.prems(1) e by (simp add: assign_Cons)
  qed
qed



lemma columnZoneEntries_member:
  assumes "j < length (Column_zones column)"
  shows "(''col_'' @ natToString ci @ ''_zone_'' @ natToString j @ ''_height'',
          zoneHeight ih (jdiv (num 1) (num (int (length (Column_zones column))))))
           \<in> set (columnZoneEntries ih ci column)"
    and "(dashesToUnderscores (Zone_id (Column_zones column ! j)) @ ''_height'',
          zoneHeight ih (jdiv (num 1) (num (int (length (Column_zones column))))))
           \<in> set (columnZoneEntries ih ci column)"
proof -
  have "(j, Column_zones column ! j) \<in> set (enumerate 0 (Column_zones column))"
    using assms by (simp add: in_set_enumerate_eq)
  then show
    "(''col_'' @ natToString ci @ ''_zone_'' @ natToString j @ ''_height'',
      zoneHeight ih (jdiv (num 1) (num (int (length (Column_zones column))))))
       \<in> set (columnZoneEntries ih ci column)"
    "(dashesToUnderscores (Zone_id (Column_zones column ! j)) @ ''_height'',
      zoneHeight ih (jdiv (num 1) (num (int (length (Column_zones column))))))
       \<in> set (columnZoneEntries ih ci column)"
    unfolding columnZoneEntries_def Let_def by force+
qed

lemma zoneHeightEntries_column_member:
  assumes "patternColumns pattern \<noteq> []" and "ci < length (patternColumns pattern)"
    and "e \<in> set (columnZoneEntries
                    (jsub (height dimensions) (jmul (num 2) (materialThickness globalSettings)))
                    ci (patternColumns pattern ! ci))"
  shows "e \<in> set (zoneHeightEntries pattern dimensions globalSettings zoneProportions)"
proof -
  have "(ci, patternColumns pattern ! ci) \<in> set (enumerate 0 (patternColumns pattern))"
    using assms(2) by (simp add: in_set_enumerate_eq)
  then show ?thesis
    using assms(1,3) unfolding zoneHeightEntries_def Let_def by force
qed

text \<open>The entries of the object literal that the claims are about.\<close>

lemma baseContext_lookups:
  "map_of (baseContext dimensions settings pattern ruleSet) ''material_thickness''
     = Some (effMaterialThickness settings pattern)"
  "map_of (baseContext dimensions settings pattern ruleSet) ''front_thickness''
     = Some (effFrontThickness settings pattern)"
  "map_of (baseContext dimensions settings pattern ruleSet) ''shelf_thickness''
     = Some (effShelfThickness settings pattern)"
  "map_of (baseContext dimensions settings pattern ruleSet) ''back_thickness''
     = Some (offsetOr ruleSet Offsets_backPanelThickness (effBackPanelThickness settings pattern))"
  "map_of (baseContext dimensions settings pattern ruleSet) ''back_groove''
     = Some (offsetOr ruleSet backGrooveDepth (backPanelGrooveDepth settings))"
  "map_of (baseContext dimensions settings pattern ruleSet) ''drawer_front_gap''
     = Some (offsetOr ruleSet drawerFrontGap (num 3))"
  "map_of (baseContext dimensions settings pattern ruleSet) ''door_gap''
     = Some (offsetOr ruleSet doorGap (num 3))"
  "map_of (baseContext dimensions settings pattern ruleSet) ''shelf_inset''
     = Some (offsetOr ruleSet shelfInset (num 20))"
  "map_of (baseContext dimensions settings pattern ruleSet) ''drawer_slide_offset''
     = Some (offsetOr ruleSet drawerSlideOffset (Finite (25 / 2)))"
  "map_of (baseContext dimensions settings pattern ruleSet) ''side_height''
     = Some (sideHeight (sideConstructionOf ruleSet) (height dimensions)
               (effMaterialThickness settings pattern))"
  "map_of (baseContext dimensions settings pattern ruleSet) ''bottom_width''
     = Some (bottomWidth (sideConstructionOf ruleSet) (width dimensions)
               (effMaterialThickness settings pattern))"
  "map_of (baseContext dimensions settings pattern ruleSet) ''top_width''
     = Some (topWidth (sideConstructionOf ruleSet) (width dimensions)
               (effMaterialThickness settings pattern))"
  by (simp_all add: baseContext_def Let_def)

lemma flatPattern_laterWrites: "laterWrites (withMaterials ms (flatPattern rules)) = []"
  "laterWrites (flatPattern rules) = []"
  by (simp_all add: laterWrites_def variableNames_def withMaterials_def flatPattern_def
        patternColumns_def columnWidthNames_def)

section \<open>The expression evaluator\<close>

text \<open>
  When the substitution returns a residue with a character that is neither a digit, nor
  white space, nor one of \<open>+ - * / ( ) .\<close>, \<open>evaluateExpression\<close> returns 0.
\<close>

lemma unsafe_residue_gives_zero:
  assumes "residue e ctx = Returns r" and "\<exists>c\<in>set r. \<not> safeChar c"
  shows "evaluateExpression (ExprString e) ctx = Returns (num 0)"
  using assms by (auto simp: evaluateExpression_def safePattern_def list_all_iff)

text \<open>
  For a name without syntax characters, one step of the loop is the replacement of every
  match by the printed value, whether the name occurs in the text or not.
\<close>

lemma occursIn_empty: "occursIn [] s"
  by (cases s) simp_all

lemma replaceAll_without_match: "\<not> occursIn key s \<Longrightarrow> replaceAll key v s = s"
proof (induction s)
  case Nil
  then show ?case
    by (cases key) (simp_all add: replaceAll.simps)
next
  case (Cons c cs)
  then have "key \<noteq> []" "\<not> matchesAt key (c # cs)" "\<not> occursIn key cs"
    using occursIn_empty by auto
  then show ?case
    using Cons.IH by (subst replaceAll.simps) simp
qed

lemma regexReplace_literal:
  "literalPattern key
   \<Longrightarrow> regexReplace key v s = Returns (replaceAll key (numberToString v) s)"
  by (simp add: regexReplace_def replaceAll_without_match)

text \<open>
  The substitution returns a residue when no variable name of the context has a syntax
  character of regular expressions.
\<close>

lemma substitute_literal_names:
  "list_all literalPattern keys \<Longrightarrow> \<exists>r. substitute ctx keys s = Returns r"
  by (induction keys arbitrary: s) (auto simp: regexReplace_def split: option.splits)

lemma residue_literal_names:
  assumes "list_all literalPattern (map fst ctx)"
  shows "\<exists>r. residue e ctx = Returns r"
proof -
  have "set (sortedKeys ctx) \<subseteq> set (map fst ctx)"
    by (auto simp: sortedKeys_def objectKeys_def Let_def)
  then have "list_all literalPattern (sortedKeys ctx)"
    using assms unfolding list_all_iff by blast
  then show ?thesis
    unfolding residue_def by (rule substitute_literal_names)
qed

text \<open>
  A variable whose name is not a regular expression makes \<open>calculateParts\<close> raise, whatever
  the rules are.
\<close>

lemma invalid_name_calculation_raises:
  "calculateParts
     ((flatPattern [plainRule ''Strip'' ''10'' ''100'' ''1''])\<lparr>variables := Some [(''c++'', num 1)]\<rparr>)
     exampleDimensions exampleSettings None None None None
   = Raises"
  by code_simp

text \<open>
  Claim C3 says that an expression whose residue has a character outside the digits,
  white space and \<open>+ - * / ( ) .\<close> evaluates to 0 whatever the context, and that the
  evaluation does not raise. The source builds a regular expression from every variable
  name of the context, before its \<open>try\<close>: with a variable named \<open>c++\<close> the evaluation
  of \<open>foo; 1\<close> raises a SyntaxError, where the same expression evaluates to 0 without
  that variable.
\<close>

theorem C3_invalid_name_raises:
  "evaluateExpression (ExprString ''foo; 1'') [(''c++'', num 1)] = Raises
   \<and> residue ''foo; 1'' [] = Returns ''foo; 1''
   \<and> evaluateExpression (ExprString ''foo; 1'') [] = Returns (num 0)"
  by code_simp

text \<open>
  A rule whose length is a division by zero passes the test \<open>length <= 0\<close>, and
  \<open>calculateParts\<close> returns a part of infinite length.
\<close>

lemma division_by_zero_part:
  "calculateParts (flatPattern [plainRule ''Strip'' ''1/0'' ''100'' ''1''])
     exampleDimensions exampleSettings None None None None
   = Returns [plainPart ''Strip'' PosInf (num 100) (num 1)]"
  by code_simp

text \<open>
  Claim C4 says that a residue whose evaluation is NaN or not finite, a division by zero
  for example, gives 0. The source tests the result with \<open>isNaN\<close> only: \<open>0/0\<close>
  evaluates to NaN and gives 0, but \<open>1/0\<close> evaluates to \<open>Infinity\<close>, which is a number
  and not NaN, and \<open>evaluateExpression\<close> returns \<open>Infinity\<close>.
\<close>

theorem C4_division_by_zero_returns_infinity:
  "residue ''1/0'' [] = Returns ''1/0'' \<and> safePattern ''1/0''
   \<and> jsFunction ''1/0'' = Returns PosInf
   \<and> evaluateExpression (ExprString ''1/0'') [] = Returns PosInf
   \<and> PosInf \<noteq> num 0
   \<and> evaluateExpression (ExprString ''0/0'') [] = Returns (num 0)"
  by code_simp

section \<open>The context builder\<close>

text \<open>
  Claim C6. With \<open>H\<close> the height, \<open>W\<close> the width and \<open>t\<close> the effective carcass
  thickness, the built context has: for sides-on-bottom, \<open>side_height = H\<close> and
  \<open>bottom_width = top_width = W - 2t\<close>; for bottom-between-sides, \<open>side_height = H - t\<close>,
  \<open>bottom_width = W\<close> and \<open>top_width = W - 2t\<close>; for all-between,
  \<open>side_height = H - 2t\<close> and \<open>bottom_width = top_width = W - 2t\<close>. The variables of a
  pattern are merged last and shadow the built-in ones, so the three names are taken not
  to be written again by the pattern.
\<close>

theorem C6_construction_variables:
  fixes dimensions :: Dimensions and settings :: GlobalSettings and pattern :: CabinetPattern
  defines "H \<equiv> height dimensions" and "W \<equiv> width dimensions"
    and "t \<equiv> effMaterialThickness settings pattern"
  assumes "''side_height'' \<notin> set (laterWrites pattern)"
    and "''bottom_width'' \<notin> set (laterWrites pattern)"
    and "''top_width'' \<notin> set (laterWrites pattern)"
  shows "let ctx = map_of (buildExpressionContext dimensions settings pattern ruleSet)
         in (sideConstructionOf ruleSet = SidesOnBottom \<longrightarrow>
               ctx ''side_height'' = Some H
               \<and> ctx ''bottom_width'' = Some (jsub W (jmul (num 2) t))
               \<and> ctx ''top_width'' = Some (jsub W (jmul (num 2) t)))
          \<and> (sideConstructionOf ruleSet = BottomBetweenSides \<longrightarrow>
               ctx ''side_height'' = Some (jsub H t)
               \<and> ctx ''bottom_width'' = Some W
               \<and> ctx ''top_width'' = Some (jsub W (jmul (num 2) t)))
          \<and> (sideConstructionOf ruleSet = AllBetween \<longrightarrow>
               ctx ''side_height'' = Some (jsub H (jmul (num 2) t))
               \<and> ctx ''bottom_width'' = Some (jsub W (jmul (num 2) t))
               \<and> ctx ''top_width'' = Some (jsub W (jmul (num 2) t)))"
  using assms(4-6)
  by (simp add: buildExpressionContext_base baseContext_lookups sideHeight_def bottomWidth_def
        topWidth_def Let_def H_def W_def t_def)

text \<open>Width 600 and thickness 18: bottom-between-sides gives \<open>bottom_width = 600\<close>,
  \<open>top_width = 564\<close> and \<open>side_height = 702\<close>.\<close>

theorem C6_construction_variables_witness:
  "''side_height'' \<notin> set (laterWrites (flatPattern []))
   \<and> ''bottom_width'' \<notin> set (laterWrites (flatPattern []))
   \<and> ''top_width'' \<notin> set (laterWrites (flatPattern []))
   \<and> sideConstructionOf (Some (exampleRuleSet BottomBetweenSides (num 0))) = BottomBetweenSides
   \<and> map_of (buildExpressionContext exampleDimensions exampleSettings (flatPattern [])
               (Some (exampleRuleSet BottomBetweenSides (num 0)))) ''side_height'' = Some (num 702)
   \<and> map_of (buildExpressionContext exampleDimensions exampleSettings (flatPattern [])
               (Some (exampleRuleSet BottomBetweenSides (num 0)))) ''bottom_width'' = Some (num 600)
   \<and> map_of (buildExpressionContext exampleDimensions exampleSettings (flatPattern [])
               (Some (exampleRuleSet BottomBetweenSides (num 0)))) ''top_width'' = Some (num 564)"
proof -
  have sc: "sideConstructionOf (Some (exampleRuleSet BottomBetweenSides (num 0))) = BottomBetweenSides"
    by (simp add: sideConstructionOf_def exampleRuleSet_def)
  have t: "effMaterialThickness exampleSettings (flatPattern []) = num 18"
    by (simp add: effMaterialThickness_def roleThickness_def flatPattern_def nullish_def
          exampleSettings_def)
  have ar: "jsub (num 720) (num 18) = num 702" "jsub (num 600) (jmul (num 2) (num 18)) = num 564"
    by code_simp+
  show ?thesis
    using C6_construction_variables [of "flatPattern []" exampleDimensions exampleSettings
        "Some (exampleRuleSet BottomBetweenSides (num 0))"]
    by (simp add: flatPattern_laterWrites sc t ar Let_def exampleDimensions_def)
qed

text \<open>
  Claim C7 says that a role without a thickness in the pattern has the global default.
  For the front (and the shelf) the source falls back to the constant
  \<open>materialThickness\<close>, the effective carcass thickness: with a carcass of 16 mm in the
  pattern and a global thickness of 18 mm, the front is 16 mm thick.
\<close>

theorem C7_front_counterexample:
  "roleThickness Pattern_front (withMaterials carcass16 (flatPattern [])) = None
   \<and> materialThickness exampleSettings = num 18
   \<and> effFrontThickness exampleSettings (withMaterials carcass16 (flatPattern [])) = num 16
   \<and> map_of (buildExpressionContext exampleDimensions exampleSettings
               (withMaterials carcass16 (flatPattern [])) None) ''front_thickness'' = Some (num 16)
   \<and> num 16 \<noteq> num 18"
  by (simp add: roleThickness_def withMaterials_def carcass16_def flatPattern_def exampleSettings_def
        effFrontThickness_def effMaterialThickness_def nullish_def buildExpressionContext_def
        baseContext_def patternColumns_def Let_def num_def)

text \<open>
  Claim C7, amended. A thickness that the pattern declares for the carcass, the back,
  the front or the shelf is the thickness of that role. Without one, the carcass has the
  global material thickness and the back the global back-panel thickness, and the front
  and the shelf have the effective carcass thickness. The context holds them as
  \<open>material_thickness\<close>, \<open>front_thickness\<close>, \<open>shelf_thickness\<close> and, unless the rule set
  has a back-panel thickness that is not zero, \<open>back_thickness\<close>. The four names are
  taken not to be written again by the pattern.
\<close>

theorem C7_effective_thickness:
  assumes "''material_thickness'' \<notin> set (laterWrites pattern)"
    and "''front_thickness'' \<notin> set (laterWrites pattern)"
    and "''shelf_thickness'' \<notin> set (laterWrites pattern)"
    and "''back_thickness'' \<notin> set (laterWrites pattern)"
  shows "let ctx = map_of (buildExpressionContext dimensions settings pattern ruleSet);
             carcassT = (case roleThickness Pattern_carcass pattern of
                           Some v \<Rightarrow> v | None \<Rightarrow> materialThickness settings);
             backT = (case roleThickness Pattern_back pattern of
                        Some v \<Rightarrow> v | None \<Rightarrow> backPanelThickness settings)
         in ctx ''material_thickness'' = Some carcassT
          \<and> ctx ''front_thickness''
              = Some (case roleThickness Pattern_front pattern of Some v \<Rightarrow> v | None \<Rightarrow> carcassT)
          \<and> ctx ''shelf_thickness''
              = Some (case roleThickness Pattern_shelf pattern of Some v \<Rightarrow> v | None \<Rightarrow> carcassT)
          \<and> ctx ''back_thickness''
              = Some (case ruleSet of
                        None \<Rightarrow> backT
                      | Some rs \<Rightarrow>
                          if truthy (Offsets_backPanelThickness (offsets rs))
                          then Offsets_backPanelThickness (offsets rs) else backT)"
  using assms
  by (simp add: buildExpressionContext_base baseContext_lookups Let_def effMaterialThickness_def
        effFrontThickness_def effShelfThickness_def effBackPanelThickness_def nullish_def
        offsetOr_def orElse_def split: option.splits)

theorem C7_effective_thickness_witness:
  "''material_thickness'' \<notin> set (laterWrites (withMaterials carcass16 (flatPattern [])))
   \<and> ''front_thickness'' \<notin> set (laterWrites (withMaterials carcass16 (flatPattern [])))
   \<and> ''shelf_thickness'' \<notin> set (laterWrites (withMaterials carcass16 (flatPattern [])))
   \<and> ''back_thickness'' \<notin> set (laterWrites (withMaterials carcass16 (flatPattern [])))
   \<and> map_of (buildExpressionContext exampleDimensions exampleSettings
               (withMaterials carcass16 (flatPattern [])) None) ''material_thickness'' = Some (num 16)
   \<and> map_of (buildExpressionContext exampleDimensions exampleSettings
               (withMaterials carcass16 (flatPattern [])) None) ''shelf_thickness'' = Some (num 16)
   \<and> map_of (buildExpressionContext exampleDimensions exampleSettings
               (withMaterials carcass16 (flatPattern [])) None) ''back_thickness'' = Some (num 6)"
proof -
  have nw: "k \<notin> set (laterWrites (withMaterials carcass16 (flatPattern [])))" for k
    by (simp add: flatPattern_laterWrites)
  have roles:
    "roleThickness Pattern_carcass (withMaterials carcass16 (flatPattern [])) = Some (num 16)"
    "roleThickness Pattern_front (withMaterials carcass16 (flatPattern [])) = None"
    "roleThickness Pattern_shelf (withMaterials carcass16 (flatPattern [])) = None"
    "roleThickness Pattern_back (withMaterials carcass16 (flatPattern [])) = None"
    "backPanelThickness exampleSettings = num 6"
    by (simp_all add: roleThickness_def withMaterials_def carcass16_def flatPattern_def
          exampleSettings_def)
  show ?thesis
    using C7_effective_thickness [OF nw nw nw nw, of exampleDimensions exampleSettings None]
    by (simp add: nw Let_def roles)
qed

text \<open>
  Claim C10 says that \<open>back_thickness\<close> falls back to the global back-panel thickness
  when the offset of the rule set is 0. The fallback is the constant
  \<open>backPanelThickness\<close>, which is the thickness of the pattern's back when the pattern
  declares one: 8 mm here, with a global thickness of 6 mm.
\<close>

theorem C10_back_counterexample:
  "Offsets_backPanelThickness (offsets (exampleRuleSet SidesOnBottom (num 0))) = num 0
   \<and> backPanelThickness exampleSettings = num 6
   \<and> map_of (buildExpressionContext exampleDimensions exampleSettings
               (withMaterials back8 (flatPattern [])) (Some (exampleRuleSet SidesOnBottom (num 0))))
        ''back_thickness'' = Some (num 8)
   \<and> num 8 \<noteq> num 6"
  by (simp add: roleThickness_def withMaterials_def back8_def flatPattern_def exampleSettings_def
        exampleRuleSet_def offsetOr_def orElse_def truthy_def isZero_def isNaN_def
        nearestDouble_def effBackPanelThickness_def nullish_def buildExpressionContext_def
        baseContext_def patternColumns_def Let_def num_def)

text \<open>
  Claim C10, amended. An offset of the rule set that is 0 behaves as an absent one:
  \<open>drawer_front_gap\<close>, \<open>door_gap\<close>, \<open>shelf_inset\<close> and \<open>drawer_slide_offset\<close> are then 3, 3,
  20 and 12.5, \<open>back_groove\<close> is the global groove depth, and \<open>back_thickness\<close> is the
  back thickness of the pattern when the pattern declares one and the global back-panel
  thickness otherwise. The six names are taken not to be written again by the pattern.
\<close>

theorem C10_zero_offsets_fall_back:
  assumes "''drawer_front_gap'' \<notin> set (laterWrites pattern)"
    and "''door_gap'' \<notin> set (laterWrites pattern)"
    and "''shelf_inset'' \<notin> set (laterWrites pattern)"
    and "''drawer_slide_offset'' \<notin> set (laterWrites pattern)"
    and "''back_thickness'' \<notin> set (laterWrites pattern)"
    and "''back_groove'' \<notin> set (laterWrites pattern)"
  shows "let ctx = map_of (buildExpressionContext dimensions settings pattern (Some rs));
             off = offsets rs
         in (drawerFrontGap off = num 0 \<longrightarrow> ctx ''drawer_front_gap'' = Some (num 3))
          \<and> (doorGap off = num 0 \<longrightarrow> ctx ''door_gap'' = Some (num 3))
          \<and> (shelfInset off = num 0 \<longrightarrow> ctx ''shelf_inset'' = Some (num 20))
          \<and> (drawerSlideOffset off = num 0 \<longrightarrow>
                ctx ''drawer_slide_offset'' = Some (Finite (25 / 2)))
          \<and> (Offsets_backPanelThickness off = num 0 \<longrightarrow>
                ctx ''back_thickness''
                  = Some (case roleThickness Pattern_back pattern of
                            Some v \<Rightarrow> v | None \<Rightarrow> backPanelThickness settings))
          \<and> (backGrooveDepth off = num 0 \<longrightarrow>
                ctx ''back_groove'' = Some (backPanelGrooveDepth settings))"
  using assms
  by (simp add: buildExpressionContext_base baseContext_lookups Let_def
        effBackPanelThickness_def nullish_def offsetOr_def orElse_def truthy_def isZero_def
        nearestDouble_def num_def split: option.splits)

theorem C10_zero_offsets_fall_back_witness:
  "''drawer_front_gap'' \<notin> set (laterWrites (flatPattern []))
   \<and> ''door_gap'' \<notin> set (laterWrites (flatPattern []))
   \<and> ''shelf_inset'' \<notin> set (laterWrites (flatPattern []))
   \<and> ''drawer_slide_offset'' \<notin> set (laterWrites (flatPattern []))
   \<and> ''back_thickness'' \<notin> set (laterWrites (flatPattern []))
   \<and> ''back_groove'' \<notin> set (laterWrites (flatPattern []))
   \<and> drawerFrontGap (offsets (exampleRuleSet SidesOnBottom (num 0))) = num 0
   \<and> Offsets_backPanelThickness (offsets (exampleRuleSet SidesOnBottom (num 0))) = num 0
   \<and> map_of (buildExpressionContext exampleDimensions exampleSettings (flatPattern [])
               (Some (exampleRuleSet SidesOnBottom (num 0)))) ''drawer_front_gap'' = Some (num 3)
   \<and> map_of (buildExpressionContext exampleDimensions exampleSettings (flatPattern [])
               (Some (exampleRuleSet SidesOnBottom (num 0)))) ''back_thickness'' = Some (num 6)"
proof -
  have nw: "k \<notin> set (laterWrites (flatPattern []))" for k
    by (simp add: flatPattern_laterWrites)
  have vals:
    "drawerFrontGap (offsets (exampleRuleSet SidesOnBottom (num 0))) = num 0"
    "Offsets_backPanelThickness (offsets (exampleRuleSet SidesOnBottom (num 0))) = num 0"
    "roleThickness Pattern_back (flatPattern []) = None"
    "backPanelThickness exampleSettings = num 6"
    by (simp_all add: roleThickness_def flatPattern_def exampleSettings_def exampleRuleSet_def)
  show ?thesis
    using C10_zero_offsets_fall_back [OF nw nw nw nw nw nw, of exampleDimensions exampleSettings
        "exampleRuleSet SidesOnBottom (num 0)"]
    by (simp add: nw Let_def vals)
qed

section \<open>Proportions\<close>











text \<open>
  Claim C9. For a column-based pattern \<open>calculateParts\<close> does not read its argument
  \<open>zoneProportions\<close>: the result is the one without the argument, and the zone-height
  variables of column \<open>ci\<close>, \<open>col_<ci>_zone_<j>_height\<close> and the name derived from the
  zone id, are \<open>Math.round\<close> of the internal height divided equally among the zones of
  that column (the names taken to be distinct). For a flat pattern an array whose length
  is not the number of zones changes nothing either.
\<close>

theorem C9_zone_proportions_ignored_for_columns:
  fixes pattern :: CabinetPattern and dimensions :: Dimensions and globalSettings :: GlobalSettings
  defines "ih \<equiv> jsub (height dimensions) (jmul (num 2) (materialThickness globalSettings))"
  shows "(patternColumns pattern \<noteq> [] \<longrightarrow>
            calculateParts pattern dimensions globalSettings variableOverrides zoneProportions
              ruleSet materialsArg
            = calculateParts pattern dimensions globalSettings variableOverrides None
                ruleSet materialsArg
          \<and> (distinct (map fst (zoneHeightEntries pattern dimensions globalSettings zoneProportions))
               \<longrightarrow> (\<forall>ci < length (patternColumns pattern).
                      \<forall>j < length (Column_zones (patternColumns pattern ! ci)).
                        map_of (rulesContext pattern dimensions globalSettings variableOverrides
                                  zoneProportions ruleSet)
                          (''col_'' @ natToString ci @ ''_zone_'' @ natToString j @ ''_height'')
                        = Some (mathRound (jmul ih (jdiv (num 1)
                              (num (int (length (Column_zones (patternColumns pattern ! ci))))))))
                      \<and> map_of (rulesContext pattern dimensions globalSettings variableOverrides
                                  zoneProportions ruleSet)
                          (dashesToUnderscores
                             (Zone_id (Column_zones (patternColumns pattern ! ci) ! j)) @ ''_height'')
                        = Some (mathRound (jmul ih (jdiv (num 1)
                              (num (int (length (Column_zones (patternColumns pattern ! ci)))))))))))
       \<and> (patternColumns pattern = [] \<longrightarrow>
            (\<forall>ps. length ps \<noteq> length (zones pattern) \<longrightarrow>
               calculateParts pattern dimensions globalSettings variableOverrides (Some ps)
                 ruleSet materialsArg
               = calculateParts pattern dimensions globalSettings variableOverrides None
                   ruleSet materialsArg))"
proof (intro conjI impI allI)
  assume "patternColumns pattern \<noteq> []"
  then show "calculateParts pattern dimensions globalSettings variableOverrides zoneProportions
               ruleSet materialsArg
             = calculateParts pattern dimensions globalSettings variableOverrides None
                 ruleSet materialsArg"
    by (simp add: calculateParts_def rulesContext_def zoneHeightEntries_def)
next
  fix ci j
  assume cols: "patternColumns pattern \<noteq> []"
    and dist: "distinct (map fst (zoneHeightEntries pattern dimensions globalSettings zoneProportions))"
    and ci: "ci < length (patternColumns pattern)"
    and j: "j < length (Column_zones (patternColumns pattern ! ci))"
  have mem:
    "(''col_'' @ natToString ci @ ''_zone_'' @ natToString j @ ''_height'',
      zoneHeight ih (jdiv (num 1)
        (num (int (length (Column_zones (patternColumns pattern ! ci)))))))
       \<in> set (zoneHeightEntries pattern dimensions globalSettings zoneProportions)"
    "(dashesToUnderscores (Zone_id (Column_zones (patternColumns pattern ! ci) ! j)) @ ''_height'',
      zoneHeight ih (jdiv (num 1)
        (num (int (length (Column_zones (patternColumns pattern ! ci)))))))
       \<in> set (zoneHeightEntries pattern dimensions globalSettings zoneProportions)"
    unfolding ih_def
    by (rule zoneHeightEntries_column_member [OF cols ci], rule columnZoneEntries_member [OF j])+
  show "map_of (rulesContext pattern dimensions globalSettings variableOverrides
                  zoneProportions ruleSet)
          (''col_'' @ natToString ci @ ''_zone_'' @ natToString j @ ''_height'')
        = Some (mathRound (jmul ih (jdiv (num 1)
              (num (int (length (Column_zones (patternColumns pattern ! ci))))))))"
    using map_of_assign_distinct [OF dist mem(1)]
    by (simp add: rulesContext_def Let_def zoneHeight_def ih_def)
  show "map_of (rulesContext pattern dimensions globalSettings variableOverrides
                  zoneProportions ruleSet)
          (dashesToUnderscores
             (Zone_id (Column_zones (patternColumns pattern ! ci) ! j)) @ ''_height'')
        = Some (mathRound (jmul ih (jdiv (num 1)
              (num (int (length (Column_zones (patternColumns pattern ! ci))))))))"
    using map_of_assign_distinct [OF dist mem(2)]
    by (simp add: rulesContext_def Let_def zoneHeight_def ih_def)
next
  fix ps :: "jsnum list"
  assume "patternColumns pattern = []" and "length ps \<noteq> length (zones pattern)"
  then show "calculateParts pattern dimensions globalSettings variableOverrides (Some ps)
               ruleSet materialsArg
             = calculateParts pattern dimensions globalSettings variableOverrides None
                 ruleSet materialsArg"
    by (simp add: calculateParts_def rulesContext_def zoneHeightEntries_def flatProportions_def)
qed

text \<open>Two zones in the first column and an internal height of 684: each zone is 342
  high, whatever the proportions of the caller.\<close>

theorem C9_zone_proportions_ignored_for_columns_witness:
  "patternColumns (twoColumns None) \<noteq> []
   \<and> distinct (map fst (zoneHeightEntries (twoColumns None) exampleDimensions exampleSettings
                           (Some [Finite (3 / 4), Finite (1 / 4)])))
   \<and> calculateParts (twoColumns None) exampleDimensions exampleSettings None
        (Some [Finite (3 / 4), Finite (1 / 4)]) None None
       = calculateParts (twoColumns None) exampleDimensions exampleSettings None None None None
   \<and> map_of (rulesContext (twoColumns None) exampleDimensions exampleSettings None
               (Some [Finite (3 / 4), Finite (1 / 4)]) None) ''col_0_zone_1_height''
       = Some (num 342)
   \<and> patternColumns twoZones = []
   \<and> length [num 1] \<noteq> length (zones twoZones)
   \<and> calculateParts twoZones exampleDimensions exampleSettings None (Some [num 1]) None None
       = calculateParts twoZones exampleDimensions exampleSettings None None None None"
proof -
  let ?P = "twoColumns None"
  let ?zp = "Some [Finite (3 / 4), Finite (1 / 4)]"
  have c1: "patternColumns ?P \<noteq> []" by code_simp
  have c2: "distinct (map fst (zoneHeightEntries ?P exampleDimensions exampleSettings ?zp))"
    by code_simp
  have c3: "0 < length (patternColumns ?P)" by code_simp
  have c4: "1 < length (Column_zones (patternColumns ?P ! 0))" by code_simp
  have ck: "''col_'' @ natToString 0 @ ''_zone_'' @ natToString 1 @ ''_height''
            = ''col_0_zone_1_height''"
    by code_simp
  have cv: "mathRound (jmul
              (jsub (height exampleDimensions) (jmul (num 2) (materialThickness exampleSettings)))
              (jdiv (num 1) (num (int (length (Column_zones (patternColumns ?P ! 0)))))))
            = num 342"
    by code_simp
  have z1: "patternColumns twoZones = []" by code_simp
  have z2: "length [num 1] \<noteq> length (zones twoZones)" by code_simp
  note c9 = C9_zone_proportions_ignored_for_columns
  note same = c9 [of ?P exampleDimensions exampleSettings None ?zp None None,
      THEN conjunct1, rule_format, OF c1, THEN conjunct1]
  note look = c9 [of ?P exampleDimensions exampleSettings None ?zp None None,
      THEN conjunct1, rule_format, OF c1, THEN conjunct2, rule_format, OF c2 c3 c4,
      THEN conjunct1]
  note flat = c9 [of twoZones exampleDimensions exampleSettings None None None None,
      THEN conjunct2, rule_format, OF z1 z2]
  show ?thesis
    using same look [unfolded ck cv] flat c1 c2 z1 z2 by simp
qed

section \<open>The part calculator\<close>

text \<open>
  Claim C5. For a pattern whose only rule is \<open>Lateral\<close>, of length
  \<open>total_height - 2*material_thickness\<close>, width \<open>total_depth - back_thickness\<close> and
  quantity \<open>2\<close>, the dimensions 720 by 600 by 560 and the settings
  \<open>materialThickness = 18\<close> and \<open>backPanelThickness = 6\<close>, \<open>calculateParts\<close> returns
  exactly one part: \<open>Lateral\<close>, of length 684, width 554 and quantity 2. The pattern is
  flat, without zones, materials and variables; the other settings are arbitrary.
\<close>

theorem C5_lateral_end_to_end:
  "calculateParts
     \<lparr>columns = None, columnProportions = None, zones = [],
      partRules = [\<lparr>Rule_id = rid, Rule_partName = ''Lateral'',
                    lengthExpression = ''total_height - 2*material_thickness'',
                    widthExpression = ''total_depth - back_thickness'',
                    quantityExpression = ''2'', Rule_materialId = None,
                    Rule_material = material, Rule_grain = grain, Rule_edgeBanding = None\<rparr>],
      materials = None, variables = None\<rparr>
     \<lparr>height = num 720, width = num 600, depth = num 560\<rparr>
     \<lparr>materialThickness = num 18, backPanelThickness = num 6,
      backPanelGrooveDepth = grooveDepth, defaultEdgeBanding = edgeBanding\<rparr>
     None None None None
   = Returns [\<lparr>Part_partName = ''Lateral'', Part_length = num 684, Part_width = num 554,
                Part_quantity = num 2, Part_materialId = None, Part_material = material,
                Part_grain = grain, Part_edgeBanding = None\<rparr>]"
  by code_simp

text \<open>The same with the default settings of the application.\<close>

theorem C5_lateral_end_to_end_witness:
  "calculateParts (flatPattern [plainRule ''Lateral'' ''total_height - 2*material_thickness''
                                  ''total_depth - back_thickness'' ''2''])
     exampleDimensions exampleSettings None None None None
   = Returns [plainPart ''Lateral'' (num 684) (num 554) (num 2)]"
  using C5_lateral_end_to_end [of "''rule-1''" None None "num 10" "Finite (1 / 2)"]
  by (simp add: flatPattern_def plainRule_def plainPart_def exampleDimensions_def
        exampleSettings_def)

text \<open>
  Claim C2 says that every part that \<open>calculateParts\<close> returns has a length and a width
  above 0. The source skips a rule when the evaluated length or width is at most 0, and
  rounds the length and the width of the part after that test: a rule of length
  \<open>0.25\<close> passes the test and gives a part of length \<open>Math.round(0.25)\<close>, which is 0.
\<close>

theorem C2_part_of_length_zero:
  "calculateParts (flatPattern [plainRule ''Strip'' ''0.25'' ''100'' ''1''])
     exampleDimensions exampleSettings None None None None
   = Returns [plainPart ''Strip'' (Finite 0) (num 100) (num 1)]
   \<and> jle (Part_length (plainPart ''Strip'' (Finite 0) (num 100) (num 1))) (num 0)"
  by code_simp

text \<open>
  Claim C1 puts the material override of the cabinet instance first in the resolution
  of the thickness of a part. The header passes \<open>cabinet.materialOverrides\<close> to
  \<open>calculateParts\<close>, which has no parameter for it: whatever the overrides, for
  example the one of the part \<open>Lateral\<close> to the material of 16 mm of the library, a rule
  without a material id gets \<open>part_thickness = 18\<close>, the global thickness.
\<close>

theorem C1_material_override_dropped:
  "headerCabinetParts (flatPattern [plainRule ''Lateral'' ''part_thickness'' ''total_depth'' ''1''])
     \<lparr>Cabinet_dimensions = exampleDimensions, Cabinet_variableOverrides = None,
      Cabinet_zoneProportions = None,
      Cabinet_materialOverrides = materialOverrides\<rparr>
     exampleSettings None [\<lparr>Material_id = ''mdf-16'', Material_thickness = num 16\<rparr>]
   = Returns [plainPart ''Lateral'' (num 18) (num 560) (num 1)]"
  by code_simp

end
